theory Spec2Isabelle
  imports Complex_Main
begin

section \<open>Block-sparse gemv and outer product (theano/sandbox/blocksparse.py)\<close>

text \<open>
  The module has two layers. The symbolic layer (\<open>make_node\<close>, \<open>grad\<close>,
  \<open>sparse_block_dot\<close>) builds graph nodes from typed variables; the numeric layer
  (\<open>CpuSparseBlockGemv.perform\<close>, \<open>CpuSparseBlockOuter.perform\<close>) runs nested loops
  over numpy arrays and mutates the accumulator \<open>o\<close>, or a copy of it.

  Element arithmetic is idealised: the element type is any semiring (\<open>int\<close>, \<open>rat\<close>,
  \<open>real\<close>), so rounding of machine floats is not part of the model.
\<close>

subsection \<open>Exceptions\<close>

datatype error =
    TypeError string
  | AssertionError
  | NotImplementedError string
  | ValueError
  | IndexError

definition bindE :: "error + 'a \<Rightarrow> ('a \<Rightarrow> error + 'b) \<Rightarrow> error + 'b" where
  "bindE m f = (case m of Inl e \<Rightarrow> Inl e | Inr x \<Rightarrow> f x)"

subsection \<open>numpy arrays\<close>

text \<open>
  An array is its shape together with its elements, addressed by coordinates. The rank is
  fixed by the type, as \<open>make_node\<close> fixes it before \<open>perform\<close> can run. Elements at
  coordinates outside the shape are never read by an access that succeeds.
\<close>

record 'a vector =
  vshape_0 :: nat
  vat :: "nat \<Rightarrow> 'a"

record 'a matrix =
  mshape_0 :: nat
  mshape_1 :: nat
  mat :: "nat \<Rightarrow> nat \<Rightarrow> 'a"

record 'a tensor3 =
  shape3_0 :: nat
  shape3_1 :: nat
  shape3_2 :: nat
  at3 :: "nat \<Rightarrow> nat \<Rightarrow> nat \<Rightarrow> 'a"

record 'a tensor4 =
  shape4_0 :: nat
  shape4_1 :: nat
  shape4_2 :: nat
  shape4_3 :: nat
  at4 :: "nat \<Rightarrow> nat \<Rightarrow> nat \<Rightarrow> nat \<Rightarrow> 'a"

text \<open>Index arrays hold integers of an integral dtype; they are only read.\<close>

record index2 =
  ishape_0 :: nat
  ishape_1 :: nat
  iat :: "nat \<Rightarrow> nat \<Rightarrow> int"

text \<open>
  numpy normalises an integer index against the length of its axis: a negative index
  counts from the end, anything else out of range raises \<open>IndexError\<close>.
\<close>

definition norm_index :: "int \<Rightarrow> nat \<Rightarrow> error + nat" where
  "norm_index i n =
     (if 0 \<le> i \<and> i < int n then Inr (nat i)
      else if - int n \<le> i \<and> i < 0 then Inr (nat (i + int n))
      else Inl IndexError)"

text \<open>\<open>I[b, j]\<close> for loop counters \<open>b\<close>, \<open>j\<close> (never negative).\<close>

definition index2_getitem :: "index2 \<Rightarrow> nat \<Rightarrow> nat \<Rightarrow> error + int" where
  "index2_getitem I b j =
     (if b < ishape_0 I \<and> j < ishape_1 I then Inr (iat I b j) else Inl IndexError)"

text \<open>\<open>t[b, j]\<close> and \<open>t[b, j, :]\<close> on a rank-3 array: one row.\<close>

definition tensor3_getitem :: "'a tensor3 \<Rightarrow> nat \<Rightarrow> nat \<Rightarrow> error + 'a vector" where
  "tensor3_getitem t b j =
     (if b < shape3_0 t \<and> j < shape3_1 t
      then Inr \<lparr>vshape_0 = shape3_2 t, vat = at3 t b j\<rparr>
      else Inl IndexError)"

text \<open>\<open>t[p, q]\<close> on a rank-4 array with numpy integers \<open>p\<close>, \<open>q\<close>: one block.\<close>

definition tensor4_getitem :: "'a tensor4 \<Rightarrow> int \<Rightarrow> int \<Rightarrow> error + 'a matrix" where
  "tensor4_getitem t p q =
     bindE (norm_index p (shape4_0 t)) (\<lambda>p'.
     bindE (norm_index q (shape4_1 t)) (\<lambda>q'.
       Inr \<lparr>mshape_0 = shape4_2 t, mshape_1 = shape4_3 t, mat = at4 t p' q'\<rparr>))"

text \<open>\<open>numpy.dot\<close> of a vector and a matrix: the row vector times the matrix.\<close>

definition dot :: "'a::semiring_0 vector \<Rightarrow> 'a matrix \<Rightarrow> error + 'a vector" where
  "dot v M =
     (if vshape_0 v = mshape_0 M
      then Inr \<lparr>vshape_0 = mshape_1 M,
                vat = (\<lambda>k. \<Sum>m<vshape_0 v. vat v m * mat M m k)\<rparr>
      else Inl ValueError)"

text \<open>\<open>numpy.outer\<close> of two vectors.\<close>

definition outer :: "'a::semiring_0 vector \<Rightarrow> 'a vector \<Rightarrow> 'a matrix" where
  "outer u v =
     \<lparr>mshape_0 = vshape_0 u, mshape_1 = vshape_0 v, mat = (\<lambda>r c. vat u r * vat v c)\<rparr>"

text \<open>
  \<open>target += rhs\<close> on array views: \<open>rhs\<close> is broadcast to the shape of \<open>target\<close> (an
  axis of length 1 is repeated), any other mismatch raises \<open>ValueError\<close>. The result
  keeps the target's shape.
\<close>

definition bcast :: "nat \<Rightarrow> nat \<Rightarrow> nat" where
  "bcast n k = (if n = 1 then 0 else k)"

definition iadd_vector :: "'a::semiring_0 vector \<Rightarrow> 'a vector \<Rightarrow> error + 'a vector" where
  "iadd_vector target rhs =
     (if vshape_0 rhs = vshape_0 target \<or> vshape_0 rhs = 1
      then Inr (target\<lparr>vat := (\<lambda>k. vat target k + vat rhs (bcast (vshape_0 rhs) k))\<rparr>)
      else Inl ValueError)"

definition iadd_matrix :: "'a::semiring_0 matrix \<Rightarrow> 'a matrix \<Rightarrow> error + 'a matrix" where
  "iadd_matrix target rhs =
     (if (mshape_0 rhs = mshape_0 target \<or> mshape_0 rhs = 1) \<and>
         (mshape_1 rhs = mshape_1 target \<or> mshape_1 rhs = 1)
      then Inr (target\<lparr>mat := (\<lambda>r c. mat target r c +
                  mat rhs (bcast (mshape_0 rhs) r) (bcast (mshape_1 rhs) c))\<rparr>)
      else Inl ValueError)"

text \<open>Writing a row or a block back: only the elements inside the shape change.\<close>

definition tensor3_setitem :: "'a tensor3 \<Rightarrow> nat \<Rightarrow> nat \<Rightarrow> 'a vector \<Rightarrow> 'a tensor3" where
  "tensor3_setitem t b j v =
     t\<lparr>at3 := (\<lambda>b' j' k. if b' = b \<and> j' = j \<and> k < shape3_2 t then vat v k
                          else at3 t b' j' k)\<rparr>"

definition tensor4_setitem ::
  "'a tensor4 \<Rightarrow> int \<Rightarrow> int \<Rightarrow> 'a matrix \<Rightarrow> error + 'a tensor4" where
  "tensor4_setitem t p q M =
     bindE (norm_index p (shape4_0 t)) (\<lambda>p'.
     bindE (norm_index q (shape4_1 t)) (\<lambda>q'.
       Inr (t\<lparr>at4 := (\<lambda>p'' q'' r c.
              if p'' = p' \<and> q'' = q' \<and> r < shape4_2 t \<and> c < shape4_3 t then mat M r c
              else at4 t p'' q'' r c)\<rparr>)))"

subsection \<open>The store\<close>

text \<open>
  \<open>perform\<close> receives references to arrays. The accumulator is written through its
  reference, so the arrays live in a store: one heap per rank, and a counter for the next
  unused reference. \<open>o.copy()\<close> allocates.
\<close>

record 'a store =
  next_ref :: nat
  heap3 :: "nat \<Rightarrow> 'a tensor3"
  heap4 :: "nat \<Rightarrow> 'a tensor4"

definition copy3 :: "'a store \<Rightarrow> nat \<Rightarrow> nat \<times> 'a store" where
  "copy3 s r =
     (next_ref s, s\<lparr>next_ref := Suc (next_ref s), heap3 := (heap3 s)(next_ref s := heap3 s r)\<rparr>)"

definition copy4 :: "'a store \<Rightarrow> nat \<Rightarrow> nat \<times> 'a store" where
  "copy4 s r =
     (next_ref s, s\<lparr>next_ref := Suc (next_ref s), heap4 := (heap4 s)(next_ref s := heap4 s r)\<rparr>)"

subsection \<open>Loops\<close>

text \<open>\<open>for k in range(n): body\<close> is \<open>for_loop [0..<n] body\<close>; an exception ends it.\<close>

fun for_loop :: "nat list \<Rightarrow> (nat \<Rightarrow> 's \<Rightarrow> error + 's) \<Rightarrow> 's \<Rightarrow> error + 's" where
  "for_loop [] body s = Inr s"
| "for_loop (k # ks) body s =
     (case body k s of Inl e \<Rightarrow> Inl e | Inr s' \<Rightarrow> for_loop ks body s')"

subsection \<open>CpuSparseBlockGemv.perform\<close>

text \<open>
  The statement \<open>o[b, j, :] += numpy.dot(h[b, i], w)\<close> of the innermost loop, after
  \<open>inputIdx = iIdx[b, i]\<close> and \<open>w = W[inputIdx, outputIdx]\<close>. The arguments \<open>o\<close>, \<open>W\<close>, \<open>h\<close>
  are references.
\<close>

definition gemv_step ::
  "nat \<Rightarrow> nat \<Rightarrow> nat \<Rightarrow> index2 \<Rightarrow> nat \<Rightarrow> nat \<Rightarrow> int \<Rightarrow> nat \<Rightarrow>
   'a::semiring_0 store \<Rightarrow> error + 'a store" where
  "gemv_step o_ref W_ref h_ref iIdx b j outputIdx i s =
     bindE (index2_getitem iIdx b i) (\<lambda>inputIdx.
     bindE (tensor4_getitem (heap4 s W_ref) inputIdx outputIdx) (\<lambda>w.
     bindE (tensor3_getitem (heap3 s o_ref) b j) (\<lambda>target.
     bindE (tensor3_getitem (heap3 s h_ref) b i) (\<lambda>hrow.
     bindE (dot hrow w) (\<lambda>d.
     bindE (iadd_vector target d) (\<lambda>new.
       Inr (s\<lparr>heap3 := (heap3 s)(o_ref := tensor3_setitem (heap3 s o_ref) b j new)\<rparr>)))))))"

definition gemv_loops ::
  "nat \<Rightarrow> nat \<Rightarrow> nat \<Rightarrow> index2 \<Rightarrow> index2 \<Rightarrow> 'a::semiring_0 store \<Rightarrow> error + 'a store" where
  "gemv_loops o_ref W_ref h_ref iIdx oIdx s0 =
     for_loop [0..<shape3_0 (heap3 s0 o_ref)] (\<lambda>b s1.
       for_loop [0..<shape3_1 (heap3 s1 o_ref)] (\<lambda>j s2.
         bindE (index2_getitem oIdx b j) (\<lambda>outputIdx.
           for_loop [0..<shape3_1 (heap3 s2 h_ref)]
             (gemv_step o_ref W_ref h_ref iIdx b j outputIdx) s2)) s1) s0"

text \<open>
  \<open>perform\<close> returns the store and the reference it puts into \<open>out_[0][0]\<close>.
\<close>

definition CpuSparseBlockGemv_perform ::
  "bool \<Rightarrow> 'a::semiring_0 store \<Rightarrow> nat \<Rightarrow> nat \<Rightarrow> nat \<Rightarrow> index2 \<Rightarrow> index2 \<Rightarrow>
   error + ('a store \<times> nat)" where
  "CpuSparseBlockGemv_perform inplace s o_ref W_ref h_ref iIdx oIdx =
     (let (o', s') = (if \<not> inplace then copy3 s o_ref else (o_ref, s)) in
      bindE (gemv_loops o' W_ref h_ref iIdx oIdx s') (\<lambda>s''. Inr (s'', o')))"

subsection \<open>CpuSparseBlockOuter.perform\<close>

text \<open>
  The statement \<open>o[xIdx[b, i], yIdx[b, j]] += numpy.outer(x[b, i], y[b, j, :])\<close>. The
  target is evaluated first, then the right-hand side.
\<close>

definition outer_step ::
  "nat \<Rightarrow> nat \<Rightarrow> nat \<Rightarrow> index2 \<Rightarrow> index2 \<Rightarrow> nat \<Rightarrow> nat \<Rightarrow> nat \<Rightarrow>
   'a::semiring_0 store \<Rightarrow> error + 'a store" where
  "outer_step o_ref x_ref y_ref xIdx yIdx b i j s =
     bindE (index2_getitem xIdx b i) (\<lambda>p.
     bindE (index2_getitem yIdx b j) (\<lambda>q.
     bindE (tensor4_getitem (heap4 s o_ref) p q) (\<lambda>target.
     bindE (tensor3_getitem (heap3 s x_ref) b i) (\<lambda>xrow.
     bindE (tensor3_getitem (heap3 s y_ref) b j) (\<lambda>yrow.
     bindE (iadd_matrix target (outer xrow yrow)) (\<lambda>new.
     bindE (tensor4_setitem (heap4 s o_ref) p q new) (\<lambda>o'.
       Inr (s\<lparr>heap4 := (heap4 s)(o_ref := o')\<rparr>))))))))"

definition outer_loops ::
  "nat \<Rightarrow> nat \<Rightarrow> nat \<Rightarrow> index2 \<Rightarrow> index2 \<Rightarrow> 'a::semiring_0 store \<Rightarrow> error + 'a store" where
  "outer_loops o_ref x_ref y_ref xIdx yIdx s0 =
     for_loop [0..<shape3_0 (heap3 s0 x_ref)] (\<lambda>b s1.
       for_loop [0..<ishape_1 xIdx] (\<lambda>i s2.
         for_loop [0..<ishape_1 yIdx]
           (outer_step o_ref x_ref y_ref xIdx yIdx b i) s2) s1) s0"

text \<open>\<open>alpha\<close> is unpacked from \<open>inp[:6]\<close> and not used again.\<close>

definition CpuSparseBlockOuter_perform ::
  "bool \<Rightarrow> 'a::semiring_0 store \<Rightarrow> nat \<Rightarrow> nat \<Rightarrow> nat \<Rightarrow> index2 \<Rightarrow> index2 \<Rightarrow> 'a \<Rightarrow>
   error + ('a store \<times> nat)" where
  "CpuSparseBlockOuter_perform inplace s o_ref x_ref y_ref xIdx yIdx alpha =
     (let (o', s') = (if \<not> inplace then copy4 s o_ref else (o_ref, s)) in
      bindE (outer_loops o' x_ref y_ref xIdx yIdx s') (\<lambda>s''. Inr (s'', o')))"


subsection \<open>Symbolic variables and graph nodes\<close>

text \<open>
  A tensor type is a dtype name and a broadcastable pattern; \<open>ndim\<close> is the length of
  the pattern.
\<close>

record ttype =
  dtype :: string
  broadcastable :: "bool list"

datatype op =
    SparseBlockGemv bool
  | SparseBlockOuter bool
  | CpuSparseBlockGemv bool
  | CpuSparseBlockOuter bool

fun inplace :: "op \<Rightarrow> bool" where
  "inplace (SparseBlockGemv ip) = ip"
| "inplace (SparseBlockOuter ip) = ip"
| "inplace (CpuSparseBlockGemv ip) = ip"
| "inplace (CpuSparseBlockOuter ip) = ip"

text \<open>An entry of a dimshuffle pattern: \<open>'x'\<close> or the number of an axis.\<close>

datatype dimension = DimX | Axis nat

text \<open>
  Tensor variables. \<open>Output node\<close> is the single output of \<open>Apply(self, inputs, [output])\<close>;
  \<open>ZerosLike\<close>, \<open>DimShuffle\<close> and \<open>Take\<close> stand for the variables that \<open>v.zeros_like()\<close>,
  \<open>v.dimshuffle(pattern)\<close> and \<open>v.take(indices, axis)\<close> build.
\<close>

datatype var =
    Variable string ttype
  | Constant ttype real
  | Output node
  | ZerosLike var
  | DimShuffle "dimension list" var
  | Take var var nat
and node = Apply op "var list" ttype

text \<open>
  Modelled from the spec: the types the tensor library (\<open>theano.tensor\<close>, not in this
  module) gives to the variables it builds. \<open>zeros_like\<close> keeps the type; \<open>dimshuffle\<close>
  has one dimension per pattern entry, broadcastable at \<open>'x'\<close>; \<open>take\<close> along one axis
  replaces that axis by the axes of the index tensor.
\<close>

fun type_of :: "var \<Rightarrow> ttype" where
  "type_of (Variable name t) = t"
| "type_of (Constant t c) = t"
| "type_of (Output (Apply f ins t)) = t"
| "type_of (ZerosLike v) = type_of v"
| "type_of (DimShuffle pattern v) =
     \<lparr>dtype = dtype (type_of v),
      broadcastable =
        map (\<lambda>d. case d of DimX \<Rightarrow> True
                  | Axis a \<Rightarrow> a < length (broadcastable (type_of v)) \<and>
                              broadcastable (type_of v) ! a) pattern\<rparr>"
| "type_of (Take a indices axis) =
     \<lparr>dtype = dtype (type_of a),
      broadcastable =
        replicate (length (broadcastable (type_of a)) +
                   length (broadcastable (type_of indices)) - 1) False\<rparr>"

definition ndim :: "var \<Rightarrow> nat" where
  "ndim v = length (broadcastable (type_of v))"

text \<open>
  Modelled from the spec: \<open>theano.tensor.as_tensor_variable\<close> (not in this module). The
  arguments are tensor variables already and come back unchanged.
\<close>

definition as_tensor_variable :: "var \<Rightarrow> var" where
  "as_tensor_variable v = v"

text \<open>
  Modelled from the spec: \<open>theano.tensor.discrete_dtypes\<close> (not in this module), the
  integral element types.
\<close>

definition discrete_dtypes :: "string list" where
  "discrete_dtypes =
     [''int8'', ''int16'', ''int32'', ''int64'', ''uint8'', ''uint16'', ''uint32'', ''uint64'']"

text \<open>
  Modelled from the spec: calling an op (\<open>Op.__call__\<close>, not in this module) declares
  the node with \<open>make_node\<close> and returns its output.
\<close>

definition call_op :: "error + node \<Rightarrow> error + var" where
  "call_op node = bindE node (\<lambda>n. Inr (Output n))"

subsection \<open>SparseBlockGemv.make_node\<close>

definition SparseBlockGemv_make_node ::
  "op \<Rightarrow> var \<Rightarrow> var \<Rightarrow> var \<Rightarrow> var \<Rightarrow> var \<Rightarrow> error + node" where
  "SparseBlockGemv_make_node self o0 W0 h0 inputIdx0 outputIdx0 =
     (let ov = as_tensor_variable o0;
          W = as_tensor_variable W0;
          h = as_tensor_variable h0;
          inputIdx = as_tensor_variable inputIdx0;
          outputIdx = as_tensor_variable outputIdx0
      in if ndim ov \<noteq> 3 then Inl (TypeError ''The output o must be a 2D tensor'')
         else if ndim W \<noteq> 4 then Inl (TypeError ''The weight matrix W must be a 4D tensor'')
         else if ndim h \<noteq> 3 then Inl (TypeError ''The input h must be a 3D tensor'')
         else if ndim inputIdx \<noteq> 2
           then Inl (TypeError ''The input indices inputIdx must be a 2D tensor'')
         else if ndim outputIdx \<noteq> 2
           then Inl (TypeError ''The output indices outputIdx must be a 2D tensor'')
         else if dtype (type_of inputIdx) \<notin> set discrete_dtypes then Inl AssertionError
         else if dtype (type_of outputIdx) \<notin> set discrete_dtypes then Inl AssertionError
         else Inr (Apply self [ov, W, h, inputIdx, outputIdx]
                     \<lparr>dtype = dtype (type_of ov),
                      broadcastable = replicate (ndim ov) False\<rparr>))"

subsection \<open>SparseBlockOuter.make_node\<close>

definition SparseBlockOuter_make_node ::
  "op \<Rightarrow> var \<Rightarrow> var \<Rightarrow> var \<Rightarrow> var \<Rightarrow> var \<Rightarrow> var option \<Rightarrow> error + node" where
  "SparseBlockOuter_make_node self o0 x0 y0 xIdx yIdx alpha0 =
     (let one = Constant \<lparr>dtype = ''float32'', broadcastable = []\<rparr> 1;
          ov = as_tensor_variable o0;
          x = as_tensor_variable x0;
          y = as_tensor_variable y0;
          alpha = (case alpha0 of None \<Rightarrow> one | Some a \<Rightarrow> a)
      in Inr (Apply self [ov, x, y, xIdx, yIdx, alpha]
                \<lparr>dtype = dtype (type_of ov),
                 broadcastable = replicate (ndim ov) False\<rparr>))"

subsection \<open>Gradients\<close>

text \<open>
  An entry of the list \<open>grad\<close> returns: a tensor variable, or the null-typed variable of
  \<open>grad_undefined(op, x_pos, x, comment)\<close>.
\<close>

datatype gradient = Tensor var | Undefined op nat var string

text \<open>
  \<open>SparseBlockGemv.grad\<close>; \<open>CpuSparseBlockGemv\<close> inherits it. Unpacking \<open>inputs\<close> needs
  exactly five entries, \<open>grads[0]\<close> at least one.
\<close>

definition SparseBlockGemv_grad :: "op \<Rightarrow> var list \<Rightarrow> var list \<Rightarrow> error + gradient list" where
  "SparseBlockGemv_grad self inputs grads =
     (case inputs of
        [ov, W, h, inputIdx, outputIdx] \<Rightarrow>
          (case grads of
             [] \<Rightarrow> Inl IndexError
           | go # rest \<Rightarrow>
               (let outer_fun = SparseBlockOuter (inplace self);
                    gemv_fun = SparseBlockGemv (inplace self)
                in bindE (call_op (SparseBlockOuter_make_node outer_fun
                                     (ZerosLike W) h go inputIdx outputIdx None)) (\<lambda>Wgrad.
                   bindE (call_op (SparseBlockGemv_make_node gemv_fun
                                     (ZerosLike h)
                                     (DimShuffle [Axis 1, Axis 0, Axis 3, Axis 2] W)
                                     go outputIdx inputIdx)) (\<lambda>hgrad.
                     Inr [Tensor go, Tensor Wgrad, Tensor hgrad,
                          Undefined self 3 inputIdx ''grad of inputIdx makes no sense'',
                          Undefined self 4 outputIdx ''grad of outputIdx makes no sense'']))))
      | _ \<Rightarrow> Inl ValueError)"

text \<open>\<open>SparseBlockOuter.grad\<close>; \<open>CpuSparseBlockOuter\<close> inherits it.\<close>

definition SparseBlockOuter_grad :: "op \<Rightarrow> var list \<Rightarrow> var list \<Rightarrow> error + gradient list" where
  "SparseBlockOuter_grad self inputs output_gradients =
     Inl (NotImplementedError ''SparseBlockOuter has no gradient implemented'')"

text \<open>The method \<open>grad\<close> of each of the four classes.\<close>

fun grad :: "op \<Rightarrow> var list \<Rightarrow> var list \<Rightarrow> error + gradient list" where
  "grad (SparseBlockGemv ip) = SparseBlockGemv_grad (SparseBlockGemv ip)"
| "grad (CpuSparseBlockGemv ip) = SparseBlockGemv_grad (CpuSparseBlockGemv ip)"
| "grad (SparseBlockOuter ip) = SparseBlockOuter_grad (SparseBlockOuter ip)"
| "grad (CpuSparseBlockOuter ip) = SparseBlockOuter_grad (CpuSparseBlockOuter ip)"

subsection \<open>sparse_block_dot\<close>

text \<open>
  The ranks are Python integers, so \<open>h.ndim - 1\<close> is computed in \<open>int\<close>.
\<close>

definition sparse_block_dot ::
  "var \<Rightarrow> var \<Rightarrow> var \<Rightarrow> var \<Rightarrow> var \<Rightarrow> bool \<Rightarrow> error + var" where
  "sparse_block_dot W h0 inputIdx0 b outputIdx0 ip =
     (if int (ndim inputIdx0) \<noteq> int (ndim h0) - 1 then Inl AssertionError
      else if ndim outputIdx0 \<noteq> ndim inputIdx0 then Inl AssertionError
      else
        (let (h, inputIdx, outputIdx) =
               (if ndim h0 = 2
                then (DimShuffle [DimX, Axis 0, Axis 1] h0,
                      DimShuffle [DimX, Axis 0] inputIdx0,
                      DimShuffle [DimX, Axis 0] outputIdx0)
                else (h0, inputIdx0, outputIdx0))
         in call_op (SparseBlockGemv_make_node (SparseBlockGemv ip)
                       (Take b outputIdx 0) W h inputIdx outputIdx)))"

section \<open>Specification-level notions\<close>

subsection \<open>Valid inputs\<close>

text \<open>
  The shapes that the docstrings of \<open>make_node\<close> give: for the gemv op \<open>o\<close> is
  (batch, oWin, oSize), \<open>W\<close> is (iBlocks, oBlocks, iSize, oSize), \<open>h\<close> is
  (batch, iWin, iSize), \<open>inputIdx\<close> is (batch, iWin) and \<open>outputIdx\<close> is (batch, oWin);
  every index names a block of \<open>W\<close>.
\<close>

definition gemv_shapes_ok ::
  "'a tensor3 \<Rightarrow> 'a tensor4 \<Rightarrow> 'a tensor3 \<Rightarrow> index2 \<Rightarrow> index2 \<Rightarrow> bool" where
  "gemv_shapes_ok ov W h iIdx oIdx \<longleftrightarrow>
     shape3_0 h = shape3_0 ov \<and> ishape_0 iIdx = shape3_0 ov \<and> ishape_0 oIdx = shape3_0 ov \<and>
     ishape_1 iIdx = shape3_1 h \<and> ishape_1 oIdx = shape3_1 ov \<and>
     shape4_2 W = shape3_2 h \<and> shape4_3 W = shape3_2 ov \<and>
     (\<forall>b<shape3_0 ov. \<forall>i<shape3_1 h. 0 \<le> iat iIdx b i \<and> iat iIdx b i < int (shape4_0 W)) \<and>
     (\<forall>b<shape3_0 ov. \<forall>j<shape3_1 ov. 0 \<le> iat oIdx b j \<and> iat oIdx b j < int (shape4_1 W))"

text \<open>
  A valid call of \<open>perform\<close>: the shapes fit, the references are allocated, and in in-place
  mode the accumulator is not the array \<open>h\<close> as well (the op declares that it destroys
  its first input, so the caller may not pass that storage as another input).
\<close>

definition gemv_inputs_valid ::
  "bool \<Rightarrow> 'a store \<Rightarrow> nat \<Rightarrow> nat \<Rightarrow> nat \<Rightarrow> index2 \<Rightarrow> index2 \<Rightarrow> bool" where
  "gemv_inputs_valid ip s o_ref W_ref h_ref iIdx oIdx \<longleftrightarrow>
     gemv_shapes_ok (heap3 s o_ref) (heap4 s W_ref) (heap3 s h_ref) iIdx oIdx \<and>
     o_ref < next_ref s \<and> W_ref < next_ref s \<and> h_ref < next_ref s \<and>
     (ip \<longrightarrow> o_ref \<noteq> h_ref)"

text \<open>
  For the outer-product op \<open>o\<close> is (xBlocks, yBlocks, xSize, ySize), \<open>x\<close> is
  (batch, xWin, xSize), \<open>y\<close> is (batch, yWin, ySize), \<open>xIdx\<close> is (batch, xWin) and \<open>yIdx\<close>
  is (batch, yWin).
\<close>

definition outer_shapes_ok ::
  "'a tensor4 \<Rightarrow> 'a tensor3 \<Rightarrow> 'a tensor3 \<Rightarrow> index2 \<Rightarrow> index2 \<Rightarrow> bool" where
  "outer_shapes_ok ov x y xIdx yIdx \<longleftrightarrow>
     shape3_0 y = shape3_0 x \<and> ishape_0 xIdx = shape3_0 x \<and> ishape_0 yIdx = shape3_0 x \<and>
     ishape_1 xIdx = shape3_1 x \<and> ishape_1 yIdx = shape3_1 y \<and>
     shape3_2 x = shape4_2 ov \<and> shape3_2 y = shape4_3 ov \<and>
     (\<forall>b<shape3_0 x. \<forall>i<shape3_1 x. 0 \<le> iat xIdx b i \<and> iat xIdx b i < int (shape4_0 ov)) \<and>
     (\<forall>b<shape3_0 x. \<forall>j<shape3_1 y. 0 \<le> iat yIdx b j \<and> iat yIdx b j < int (shape4_1 ov))"

definition outer_inputs_valid ::
  "'a store \<Rightarrow> nat \<Rightarrow> nat \<Rightarrow> nat \<Rightarrow> index2 \<Rightarrow> index2 \<Rightarrow> bool" where
  "outer_inputs_valid s o_ref x_ref y_ref xIdx yIdx \<longleftrightarrow>
     outer_shapes_ok (heap4 s o_ref) (heap3 s x_ref) (heap3 s y_ref) xIdx yIdx \<and>
     o_ref < next_ref s \<and> x_ref < next_ref s \<and> y_ref < next_ref s"

subsection \<open>The documented results\<close>

text \<open>
  Component \<open>k\<close> of \<open>dot(h[b, i], W[iIdx[b, i], oIdx[b, j]])\<close>, and the array that the
  docstring of \<open>SparseBlockGemv\<close> describes: \<open>o\<close> with all these products added.
\<close>

definition dot_term ::
  "'a::semiring_0 tensor3 \<Rightarrow> 'a tensor4 \<Rightarrow> index2 \<Rightarrow> index2 \<Rightarrow>
   nat \<Rightarrow> nat \<Rightarrow> nat \<Rightarrow> nat \<Rightarrow> 'a" where
  "dot_term h W iIdx oIdx b j i k =
     (\<Sum>m<shape3_2 h. at3 h b i m * at4 W (nat (iat iIdx b i)) (nat (iat oIdx b j)) m k)"

definition gemv_spec ::
  "'a::semiring_0 tensor3 \<Rightarrow> 'a tensor4 \<Rightarrow> 'a tensor3 \<Rightarrow> index2 \<Rightarrow> index2 \<Rightarrow> 'a tensor3" where
  "gemv_spec ov W h iIdx oIdx =
     ov\<lparr>at3 := (\<lambda>b j k. if b < shape3_0 ov \<and> j < shape3_1 ov \<and> k < shape3_2 ov
                then at3 ov b j k + (\<Sum>i<shape3_1 h. dot_term h W iIdx oIdx b j i k)
                else at3 ov b j k)\<rparr>"

text \<open>
  What the triple \<open>(b, i, j)\<close> adds to element \<open>(r, c)\<close> of block \<open>(p, q)\<close>: the outer
  product of \<open>x[b, i]\<close> and \<open>y[b, j]\<close> if the triple is sent to that block, nothing
  otherwise. \<open>outer_spec\<close> is \<open>o\<close> with the contributions of all triples added.
\<close>

definition outer_term ::
  "'a::semiring_0 tensor4 \<Rightarrow> 'a tensor3 \<Rightarrow> 'a tensor3 \<Rightarrow> index2 \<Rightarrow> index2 \<Rightarrow>
   nat \<Rightarrow> nat \<Rightarrow> nat \<Rightarrow> nat \<Rightarrow> nat \<Rightarrow> nat \<Rightarrow> nat \<Rightarrow> 'a" where
  "outer_term ov x y xIdx yIdx b i j p q r c =
     (if p = nat (iat xIdx b i) \<and> q = nat (iat yIdx b j) \<and> r < shape4_2 ov \<and> c < shape4_3 ov
      then at3 x b i r * at3 y b j c else 0)"

definition outer_spec ::
  "'a::semiring_0 tensor4 \<Rightarrow> 'a tensor3 \<Rightarrow> 'a tensor3 \<Rightarrow> index2 \<Rightarrow> index2 \<Rightarrow> 'a tensor4" where
  "outer_spec ov x y xIdx yIdx =
     ov\<lparr>at4 := (\<lambda>p q r c. at4 ov p q r c +
            (\<Sum>b<shape3_0 x. \<Sum>i<shape3_1 x. \<Sum>j<shape3_1 y.
               outer_term ov x y xIdx yIdx b i j p q r c))\<rparr>"

subsection \<open>The loop bodies as functions on the elements of the accumulator\<close>

text \<open>
  While the loops run only the elements of the accumulator change. \<open>with_at3 s r F\<close> is
  the store \<open>s\<close> with \<open>F\<close> as the elements of the rank-3 array at \<open>r\<close>; the functions below
  are the effect of one statement, one innermost loop and one middle loop on \<open>F\<close>.
\<close>

definition with_at3 :: "'a store \<Rightarrow> nat \<Rightarrow> (nat \<Rightarrow> nat \<Rightarrow> nat \<Rightarrow> 'a) \<Rightarrow> 'a store" where
  "with_at3 s r F = s\<lparr>heap3 := (heap3 s)(r := (heap3 s r)\<lparr>at3 := F\<rparr>)\<rparr>"

definition with_at4 ::
  "'a store \<Rightarrow> nat \<Rightarrow> (nat \<Rightarrow> nat \<Rightarrow> nat \<Rightarrow> nat \<Rightarrow> 'a) \<Rightarrow> 'a store" where
  "with_at4 s r F = s\<lparr>heap4 := (heap4 s)(r := (heap4 s r)\<lparr>at4 := F\<rparr>)\<rparr>"

definition gemv_step_fun ::
  "'a::semiring_0 tensor3 \<Rightarrow> 'a tensor3 \<Rightarrow> 'a tensor4 \<Rightarrow> index2 \<Rightarrow> index2 \<Rightarrow>
   nat \<Rightarrow> nat \<Rightarrow> nat \<Rightarrow> (nat \<Rightarrow> nat \<Rightarrow> nat \<Rightarrow> 'a) \<Rightarrow> (nat \<Rightarrow> nat \<Rightarrow> nat \<Rightarrow> 'a)" where
  "gemv_step_fun ov h W iIdx oIdx b j i F =
     (\<lambda>b' j' k. if b' = b \<and> j' = j \<and> k < shape3_2 ov
                then F b j k + dot_term h W iIdx oIdx b j i k else F b' j' k)"

definition gemv_row_fun ::
  "'a::semiring_0 tensor3 \<Rightarrow> 'a tensor3 \<Rightarrow> 'a tensor4 \<Rightarrow> index2 \<Rightarrow> index2 \<Rightarrow>
   nat \<Rightarrow> nat \<Rightarrow> (nat \<Rightarrow> nat \<Rightarrow> nat \<Rightarrow> 'a) \<Rightarrow> (nat \<Rightarrow> nat \<Rightarrow> nat \<Rightarrow> 'a)" where
  "gemv_row_fun ov h W iIdx oIdx b j =
     fold (gemv_step_fun ov h W iIdx oIdx b j) [0..<shape3_1 h]"

definition gemv_batch_fun ::
  "'a::semiring_0 tensor3 \<Rightarrow> 'a tensor3 \<Rightarrow> 'a tensor4 \<Rightarrow> index2 \<Rightarrow> index2 \<Rightarrow>
   nat \<Rightarrow> (nat \<Rightarrow> nat \<Rightarrow> nat \<Rightarrow> 'a) \<Rightarrow> (nat \<Rightarrow> nat \<Rightarrow> nat \<Rightarrow> 'a)" where
  "gemv_batch_fun ov h W iIdx oIdx b =
     fold (gemv_row_fun ov h W iIdx oIdx b) [0..<shape3_1 ov]"

definition outer_step_fun ::
  "'a::semiring_0 tensor4 \<Rightarrow> 'a tensor3 \<Rightarrow> 'a tensor3 \<Rightarrow> index2 \<Rightarrow> index2 \<Rightarrow>
   nat \<Rightarrow> nat \<Rightarrow> nat \<Rightarrow>
   (nat \<Rightarrow> nat \<Rightarrow> nat \<Rightarrow> nat \<Rightarrow> 'a) \<Rightarrow> (nat \<Rightarrow> nat \<Rightarrow> nat \<Rightarrow> nat \<Rightarrow> 'a)" where
  "outer_step_fun ov x y xIdx yIdx b i j F =
     (\<lambda>p q r c. F p q r c + outer_term ov x y xIdx yIdx b i j p q r c)"

definition outer_window_fun ::
  "'a::semiring_0 tensor4 \<Rightarrow> 'a tensor3 \<Rightarrow> 'a tensor3 \<Rightarrow> index2 \<Rightarrow> index2 \<Rightarrow>
   nat \<Rightarrow> nat \<Rightarrow>
   (nat \<Rightarrow> nat \<Rightarrow> nat \<Rightarrow> nat \<Rightarrow> 'a) \<Rightarrow> (nat \<Rightarrow> nat \<Rightarrow> nat \<Rightarrow> nat \<Rightarrow> 'a)" where
  "outer_window_fun ov x y xIdx yIdx b i =
     fold (outer_step_fun ov x y xIdx yIdx b i) [0..<shape3_1 y]"

definition outer_batch_fun ::
  "'a::semiring_0 tensor4 \<Rightarrow> 'a tensor3 \<Rightarrow> 'a tensor3 \<Rightarrow> index2 \<Rightarrow> index2 \<Rightarrow>
   nat \<Rightarrow>
   (nat \<Rightarrow> nat \<Rightarrow> nat \<Rightarrow> nat \<Rightarrow> 'a) \<Rightarrow> (nat \<Rightarrow> nat \<Rightarrow> nat \<Rightarrow> nat \<Rightarrow> 'a)" where
  "outer_batch_fun ov x y xIdx yIdx b =
     fold (outer_window_fun ov x y xIdx yIdx b) [0..<shape3_1 x]"

subsection \<open>Example inputs\<close>

text \<open>
  A gemv instance with one batch entry, one output block of size 2 and two input blocks of
  size 2: the row of \<open>o\<close> is (10, 20), the rows of \<open>h\<close> are (1, 2) and (3, 4), block
  (0, 0) of \<open>W\<close> is the identity matrix and block (1, 0) has the rows (1, 1) and (0, 1),
  \<open>inputIdx\<close> is (1, 0) and \<open>outputIdx\<close> is (0); the bias has the single row (100, 200).
  An outer-product instance with two batch entries that are both sent to the only block:
  \<open>o\<close> holds 1, \<open>x\<close> holds 2 and 5, \<open>y\<close> holds 3 and 7, all indices are 0. In the store
  \<open>o\<close>, \<open>W\<close>, \<open>h\<close> are at 0, 1, 2, the outer accumulator, \<open>x\<close>, \<open>y\<close> at 3, 4, 5, and the
  bias rows that \<open>outputIdx\<close> selects at 6.
\<close>

definition example_o :: "int tensor3" where
  "example_o = \<lparr>shape3_0 = 1, shape3_1 = 1, shape3_2 = 2,
                 at3 = (\<lambda>b j k. if k = 0 then 10 else 20)\<rparr>"

definition example_h :: "int tensor3" where
  "example_h = \<lparr>shape3_0 = 1, shape3_1 = 2, shape3_2 = 2,
                 at3 = (\<lambda>b i m. int (2 * i + m) + 1)\<rparr>"

definition example_W :: "int tensor4" where
  "example_W = \<lparr>shape4_0 = 2, shape4_1 = 1, shape4_2 = 2, shape4_3 = 2,
                 at4 = (\<lambda>p q m k. if m = k then 1 else if m = 0 then int p else 0)\<rparr>"

definition example_iIdx :: index2 where
  "example_iIdx = \<lparr>ishape_0 = 1, ishape_1 = 2, iat = (\<lambda>b i. if i = 0 then 1 else 0)\<rparr>"

definition example_oIdx :: index2 where
  "example_oIdx = \<lparr>ishape_0 = 1, ishape_1 = 1, iat = (\<lambda>b j. 0)\<rparr>"

definition example_bias :: "int matrix" where
  "example_bias = \<lparr>mshape_0 = 1, mshape_1 = 2, mat = (\<lambda>q k. if k = 0 then 100 else 200)\<rparr>"

definition example_gathered :: "int tensor3" where
  "example_gathered = \<lparr>shape3_0 = 1, shape3_1 = 1, shape3_2 = 2,
                        at3 = (\<lambda>n j k. if k = 0 then 100 else 200)\<rparr>"

definition example_acc :: "int tensor4" where
  "example_acc = \<lparr>shape4_0 = 1, shape4_1 = 1, shape4_2 = 1, shape4_3 = 1,
                   at4 = (\<lambda>p q r c. 1)\<rparr>"

definition example_x :: "int tensor3" where
  "example_x = \<lparr>shape3_0 = 2, shape3_1 = 1, shape3_2 = 1,
                 at3 = (\<lambda>b i r. if b = 0 then 2 else 5)\<rparr>"

definition example_y :: "int tensor3" where
  "example_y = \<lparr>shape3_0 = 2, shape3_1 = 1, shape3_2 = 1,
                 at3 = (\<lambda>b j c. if b = 0 then 3 else 7)\<rparr>"

definition example_xyIdx :: index2 where
  "example_xyIdx = \<lparr>ishape_0 = 2, ishape_1 = 1, iat = (\<lambda>b i. 0)\<rparr>"

definition example_store :: "int store" where
  "example_store =
     \<lparr>next_ref = 7,
      heap3 = (\<lambda>r. if r = 0 then example_o else if r = 2 then example_h
                    else if r = 4 then example_x else if r = 5 then example_y
                    else example_gathered),
      heap4 = (\<lambda>r. if r = 3 then example_acc else example_W)\<rparr>"

text \<open>
  A store in which the accumulator and \<open>h\<close> are the same array, at reference 0: its two
  rows hold 1, the only block of \<open>W\<close>, at reference 1, holds 1, and all indices are 0.
\<close>

definition aliased_store :: "int store" where
  "aliased_store =
     \<lparr>next_ref = 2,
      heap3 = (\<lambda>r. \<lparr>shape3_0 = 1, shape3_1 = 2, shape3_2 = 1, at3 = (\<lambda>b j k. 1)\<rparr>),
      heap4 = (\<lambda>r. \<lparr>shape4_0 = 1, shape4_1 = 1, shape4_2 = 1, shape4_3 = 1,
                     at4 = (\<lambda>p q m k. 1)\<rparr>)\<rparr>"

definition aliased_idx :: index2 where
  "aliased_idx = \<lparr>ishape_0 = 1, ishape_1 = 2, iat = (\<lambda>b i. 0)\<rparr>"

section \<open>Properties\<close>

subsection \<open>The gradient of SparseBlockOuter\<close>

text \<open>
  Claim C9. Asking for the gradient of the outer-product op, the base class or the CPU
  class, in-place or not, raises \<open>NotImplementedError\<close> whatever the inputs and the
  output gradients are; no gradient list is returned.
\<close>

theorem outer_grad_not_implemented:
  "grad (SparseBlockOuter ip) inputs output_gradients =
     Inl (NotImplementedError ''SparseBlockOuter has no gradient implemented'') \<and>
   grad (CpuSparseBlockOuter ip) inputs output_gradients =
     Inl (NotImplementedError ''SparseBlockOuter has no gradient implemented'')"
  by (simp add: SparseBlockOuter_grad_def)

theorem outer_grad_not_implemented_witness:
  "grad (SparseBlockOuter True)
     [Variable ''o'' \<lparr>dtype = ''float64'', broadcastable = [False, False, False, False]\<rparr>] [] =
     Inl (NotImplementedError ''SparseBlockOuter has no gradient implemented'') \<and>
   grad (CpuSparseBlockOuter True)
     [Variable ''o'' \<lparr>dtype = ''float64'', broadcastable = [False, False, False, False]\<rparr>] [] =
     Inl (NotImplementedError ''SparseBlockOuter has no gradient implemented'')"
  by (rule outer_grad_not_implemented)

subsection \<open>The default scale factor\<close>

text \<open>
  Claim C10. When \<open>make_node\<close> of the outer-product op is called without \<open>alpha\<close>, the
  sixth input of the node is the scalar constant 1.0 of dtype float32, whatever the types
  of \<open>o\<close>, \<open>x\<close> and \<open>y\<close> are.
\<close>

theorem outer_default_alpha:
  "SparseBlockOuter_make_node self ov x y xIdx yIdx None =
     Inr (Apply self
            [ov, x, y, xIdx, yIdx, Constant \<lparr>dtype = ''float32'', broadcastable = []\<rparr> 1]
            \<lparr>dtype = dtype (type_of ov), broadcastable = replicate (ndim ov) False\<rparr>)"
  by (simp add: SparseBlockOuter_make_node_def as_tensor_variable_def)

theorem outer_default_alpha_witness:
  "SparseBlockOuter_make_node (SparseBlockOuter False)
     (Variable ''o'' \<lparr>dtype = ''float64'', broadcastable = [False, False, False, False]\<rparr>)
     (Variable ''x'' \<lparr>dtype = ''float64'', broadcastable = [False, False, False]\<rparr>)
     (Variable ''y'' \<lparr>dtype = ''float64'', broadcastable = [False, False, False]\<rparr>)
     (Variable ''xIdx'' \<lparr>dtype = ''int64'', broadcastable = [False, False]\<rparr>)
     (Variable ''yIdx'' \<lparr>dtype = ''int64'', broadcastable = [False, False]\<rparr>) None =
   Inr (Apply (SparseBlockOuter False)
          [Variable ''o'' \<lparr>dtype = ''float64'', broadcastable = [False, False, False, False]\<rparr>,
           Variable ''x'' \<lparr>dtype = ''float64'', broadcastable = [False, False, False]\<rparr>,
           Variable ''y'' \<lparr>dtype = ''float64'', broadcastable = [False, False, False]\<rparr>,
           Variable ''xIdx'' \<lparr>dtype = ''int64'', broadcastable = [False, False]\<rparr>,
           Variable ''yIdx'' \<lparr>dtype = ''int64'', broadcastable = [False, False]\<rparr>,
           Constant \<lparr>dtype = ''float32'', broadcastable = []\<rparr> 1]
          \<lparr>dtype = ''float64'', broadcastable = [False, False, False, False]\<rparr>)"
  using outer_default_alpha
    [of "SparseBlockOuter False"
        "Variable ''o'' \<lparr>dtype = ''float64'', broadcastable = [False, False, False, False]\<rparr>"]
  by (simp add: ndim_def numeral_eq_Suc)


subsection \<open>Node construction\<close>

lemma ndim_ZerosLike: "ndim (ZerosLike v) = ndim v"
  by (simp add: ndim_def)

lemma ndim_DimShuffle: "ndim (DimShuffle pattern v) = length pattern"
  by (simp add: ndim_def)

lemma gemv_make_node_Inr_iff:
  "SparseBlockGemv_make_node self ov W h inputIdx outputIdx = Inr n \<longleftrightarrow>
     ndim ov = 3 \<and> ndim W = 4 \<and> ndim h = 3 \<and> ndim inputIdx = 2 \<and> ndim outputIdx = 2 \<and>
     dtype (type_of inputIdx) \<in> set discrete_dtypes \<and>
     dtype (type_of outputIdx) \<in> set discrete_dtypes \<and>
     n = Apply self [ov, W, h, inputIdx, outputIdx]
           \<lparr>dtype = dtype (type_of ov), broadcastable = replicate 3 False\<rparr>"
  by (auto simp add: SparseBlockGemv_make_node_def as_tensor_variable_def Let_def)

lemma gemv_make_node_rank_error:
  assumes "ndim ov \<noteq> 3 \<or> ndim W \<noteq> 4 \<or> ndim h \<noteq> 3 \<or> ndim inputIdx \<noteq> 2 \<or> ndim outputIdx \<noteq> 2"
  shows "\<exists>msg. SparseBlockGemv_make_node self ov W h inputIdx outputIdx = Inl (TypeError msg)"
  using assms by (auto simp add: SparseBlockGemv_make_node_def as_tensor_variable_def Let_def)

lemma gemv_make_node_dtype_error:
  assumes "ndim ov = 3" "ndim W = 4" "ndim h = 3" "ndim inputIdx = 2" "ndim outputIdx = 2"
    and "dtype (type_of inputIdx) \<notin> set discrete_dtypes \<or>
         dtype (type_of outputIdx) \<notin> set discrete_dtypes"
  shows "SparseBlockGemv_make_node self ov W h inputIdx outputIdx = Inl AssertionError"
  using assms by (auto simp add: SparseBlockGemv_make_node_def as_tensor_variable_def Let_def)

text \<open>
  Claim C6, as stated, also covers the outer-product op: a call whose \<open>o\<close> does not have
  rank 4 should fail. \<open>SparseBlockOuter.make_node\<close> checks nothing: with a rank-2 \<open>o\<close>
  (and rank-0 vectors and indices of a floating dtype) it builds the node.
\<close>

theorem outer_make_node_accepts_wrong_rank:
  "ndim (Variable ''o'' \<lparr>dtype = ''float32'', broadcastable = [False, False]\<rparr>) \<noteq> 4 \<and>
   SparseBlockOuter_make_node (SparseBlockOuter True)
     (Variable ''o'' \<lparr>dtype = ''float32'', broadcastable = [False, False]\<rparr>)
     (Variable ''x'' \<lparr>dtype = ''float32'', broadcastable = []\<rparr>)
     (Variable ''y'' \<lparr>dtype = ''float32'', broadcastable = []\<rparr>)
     (Variable ''xIdx'' \<lparr>dtype = ''float32'', broadcastable = []\<rparr>)
     (Variable ''yIdx'' \<lparr>dtype = ''float32'', broadcastable = []\<rparr>) None =
   Inr (Apply (SparseBlockOuter True)
          [Variable ''o'' \<lparr>dtype = ''float32'', broadcastable = [False, False]\<rparr>,
           Variable ''x'' \<lparr>dtype = ''float32'', broadcastable = []\<rparr>,
           Variable ''y'' \<lparr>dtype = ''float32'', broadcastable = []\<rparr>,
           Variable ''xIdx'' \<lparr>dtype = ''float32'', broadcastable = []\<rparr>,
           Variable ''yIdx'' \<lparr>dtype = ''float32'', broadcastable = []\<rparr>,
           Constant \<lparr>dtype = ''float32'', broadcastable = []\<rparr> 1]
          \<lparr>dtype = ''float32'', broadcastable = [False, False]\<rparr>)"
  by (simp add: SparseBlockOuter_make_node_def as_tensor_variable_def ndim_def numeral_eq_Suc)

text \<open>
  Claim C6, amended. \<open>SparseBlockGemv.make_node\<close> returns no node when an argument has
  the wrong rank (a \<open>TypeError\<close> with a message about the first offending argument) or,
  the ranks being right, when an index tensor has a dtype that is not integral (a failed
  assertion). Node construction only looks at the types of the variables: no array is in
  scope, in-place or not, and \<open>perform\<close> needs a node. \<open>SparseBlockOuter.make_node\<close>
  never rejects its arguments.
\<close>

theorem make_node_validation:
  "(ndim ov \<noteq> 3 \<or> ndim W \<noteq> 4 \<or> ndim h \<noteq> 3 \<or> ndim inputIdx \<noteq> 2 \<or> ndim outputIdx \<noteq> 2
      \<longrightarrow> (\<exists>msg. SparseBlockGemv_make_node self ov W h inputIdx outputIdx =
                   Inl (TypeError msg))) \<and>
   (ndim ov = 3 \<and> ndim W = 4 \<and> ndim h = 3 \<and> ndim inputIdx = 2 \<and> ndim outputIdx = 2 \<and>
    (dtype (type_of inputIdx) \<notin> set discrete_dtypes \<or>
     dtype (type_of outputIdx) \<notin> set discrete_dtypes)
      \<longrightarrow> SparseBlockGemv_make_node self ov W h inputIdx outputIdx = Inl AssertionError) \<and>
   (\<exists>n. SparseBlockOuter_make_node self' ov' x y xIdx yIdx alpha = Inr n)"
proof (intro conjI impI)
  assume "ndim ov \<noteq> 3 \<or> ndim W \<noteq> 4 \<or> ndim h \<noteq> 3 \<or> ndim inputIdx \<noteq> 2 \<or> ndim outputIdx \<noteq> 2"
  then show "\<exists>msg. SparseBlockGemv_make_node self ov W h inputIdx outputIdx = Inl (TypeError msg)"
    by (rule gemv_make_node_rank_error)
next
  assume "ndim ov = 3 \<and> ndim W = 4 \<and> ndim h = 3 \<and> ndim inputIdx = 2 \<and> ndim outputIdx = 2 \<and>
    (dtype (type_of inputIdx) \<notin> set discrete_dtypes \<or>
     dtype (type_of outputIdx) \<notin> set discrete_dtypes)"
  then show "SparseBlockGemv_make_node self ov W h inputIdx outputIdx = Inl AssertionError"
    by (simp add: gemv_make_node_dtype_error)
next
  show "\<exists>n. SparseBlockOuter_make_node self' ov' x y xIdx yIdx alpha = Inr n"
    by (simp add: SparseBlockOuter_make_node_def Let_def)
qed

theorem make_node_validation_witness:
  "(let o3 = Variable ''o'' \<lparr>dtype = ''float64'', broadcastable = [False, False, False]\<rparr>;
        W2 = Variable ''W'' \<lparr>dtype = ''float64'', broadcastable = [False, False]\<rparr>;
        W4 = Variable ''W'' \<lparr>dtype = ''float64'', broadcastable = [False, False, False, False]\<rparr>;
        h3 = Variable ''h'' \<lparr>dtype = ''float64'', broadcastable = [False, False, False]\<rparr>;
        i2 = Variable ''inputIdx'' \<lparr>dtype = ''int64'', broadcastable = [False, False]\<rparr>;
        f2 = Variable ''outputIdx'' \<lparr>dtype = ''float64'', broadcastable = [False, False]\<rparr>
    in ndim W2 \<noteq> 4 \<and>
       (\<exists>msg. SparseBlockGemv_make_node (SparseBlockGemv True) o3 W2 h3 i2 i2 =
          Inl (TypeError msg)) \<and>
       ndim o3 = 3 \<and> ndim W4 = 4 \<and> ndim h3 = 3 \<and> ndim i2 = 2 \<and> ndim f2 = 2 \<and>
       dtype (type_of f2) \<notin> set discrete_dtypes \<and>
       SparseBlockGemv_make_node (SparseBlockGemv True) o3 W4 h3 i2 f2 = Inl AssertionError)"
proof -
  let ?o3 = "Variable ''o'' \<lparr>dtype = ''float64'', broadcastable = [False, False, False]\<rparr>"
  let ?W2 = "Variable ''W'' \<lparr>dtype = ''float64'', broadcastable = [False, False]\<rparr>"
  let ?W4 = "Variable ''W'' \<lparr>dtype = ''float64'', broadcastable = [False, False, False, False]\<rparr>"
  let ?h3 = "Variable ''h'' \<lparr>dtype = ''float64'', broadcastable = [False, False, False]\<rparr>"
  let ?i2 = "Variable ''inputIdx'' \<lparr>dtype = ''int64'', broadcastable = [False, False]\<rparr>"
  let ?f2 = "Variable ''outputIdx'' \<lparr>dtype = ''float64'', broadcastable = [False, False]\<rparr>"
  have r: "ndim ?o3 = 3" "ndim ?W2 = 2" "ndim ?W4 = 4" "ndim ?h3 = 3" "ndim ?i2 = 2"
    "ndim ?f2 = 2"
    by (simp_all add: ndim_def)
  have d: "dtype (type_of ?f2) \<notin> set discrete_dtypes"
    by (simp add: discrete_dtypes_def)
  from make_node_validation [of ?o3 ?W2 ?h3 ?i2 ?i2 "SparseBlockGemv True"] r
  have t: "\<exists>msg. SparseBlockGemv_make_node (SparseBlockGemv True) ?o3 ?W2 ?h3 ?i2 ?i2 =
         Inl (TypeError msg)"
    by simp
  from make_node_validation [of ?o3 ?W4 ?h3 ?i2 ?f2 "SparseBlockGemv True"] r d
  have "SparseBlockGemv_make_node (SparseBlockGemv True) ?o3 ?W4 ?h3 ?i2 ?f2 = Inl AssertionError"
    by simp
  with r d t show ?thesis
    by (simp add: Let_def)
qed

subsection \<open>The gradient of SparseBlockGemv\<close>

lemma gemv_grad_Wgrad_call:
  "call_op (SparseBlockOuter_make_node (SparseBlockOuter ip)
              (ZerosLike W) h go inputIdx outputIdx None) =
     Inr (Output (Apply (SparseBlockOuter ip)
            [ZerosLike W, h, go, inputIdx, outputIdx,
             Constant \<lparr>dtype = ''float32'', broadcastable = []\<rparr> 1]
            \<lparr>dtype = dtype (type_of W), broadcastable = replicate (ndim W) False\<rparr>))"
  by (simp add: SparseBlockOuter_make_node_def as_tensor_variable_def call_op_def bindE_def
      ndim_ZerosLike)

lemma gemv_grad_hgrad_call:
  assumes "SparseBlockGemv_make_node self ov W h inputIdx outputIdx = Inr fwd"
    and "type_of go = type_of (Output fwd)"
  shows "call_op (SparseBlockGemv_make_node (SparseBlockGemv ip)
                    (ZerosLike h) (DimShuffle [Axis 1, Axis 0, Axis 3, Axis 2] W)
                    go outputIdx inputIdx) =
           Inr (Output (Apply (SparseBlockGemv ip)
                  [ZerosLike h, DimShuffle [Axis 1, Axis 0, Axis 3, Axis 2] W, go,
                   outputIdx, inputIdx]
                  \<lparr>dtype = dtype (type_of h), broadcastable = replicate 3 False\<rparr>))"
proof -
  from assms(1) have r: "ndim h = 3" "ndim inputIdx = 2" "ndim outputIdx = 2"
    "dtype (type_of inputIdx) \<in> set discrete_dtypes"
    "dtype (type_of outputIdx) \<in> set discrete_dtypes"
    and n: "fwd = Apply self [ov, W, h, inputIdx, outputIdx]
           \<lparr>dtype = dtype (type_of ov), broadcastable = replicate 3 False\<rparr>"
    by (simp_all add: gemv_make_node_Inr_iff)
  from assms(2) n have g: "ndim go = 3"
    by (simp add: ndim_def)
  show ?thesis
    using r g by (simp add: SparseBlockGemv_make_node_def as_tensor_variable_def call_op_def
        bindE_def ndim_ZerosLike ndim_DimShuffle)
qed

lemma gemv_grad_value:
  assumes "SparseBlockGemv_make_node self ov W h inputIdx outputIdx = Inr fwd"
    and "type_of go = type_of (Output fwd)"
  shows "SparseBlockGemv_grad self [ov, W, h, inputIdx, outputIdx] [go] =
           Inr [Tensor go,
                Tensor (Output (Apply (SparseBlockOuter (inplace self))
                   [ZerosLike W, h, go, inputIdx, outputIdx,
                    Constant \<lparr>dtype = ''float32'', broadcastable = []\<rparr> 1]
                   \<lparr>dtype = dtype (type_of W), broadcastable = replicate (ndim W) False\<rparr>)),
                Tensor (Output (Apply (SparseBlockGemv (inplace self))
                   [ZerosLike h, DimShuffle [Axis 1, Axis 0, Axis 3, Axis 2] W, go,
                    outputIdx, inputIdx]
                   \<lparr>dtype = dtype (type_of h), broadcastable = replicate 3 False\<rparr>)),
                Undefined self 3 inputIdx ''grad of inputIdx makes no sense'',
                Undefined self 4 outputIdx ''grad of outputIdx makes no sense'']"
  by (simp add: SparseBlockGemv_grad_def gemv_grad_Wgrad_call gemv_grad_hgrad_call [OF assms]
      bindE_def del: One_nat_def)

text \<open>
  Claim C3. For inputs from which \<open>make_node\<close> builds the forward node, and an upstream
  gradient \<open>go\<close> of the type of its output, \<open>grad\<close> returns five entries; the third, the
  gradient with respect to \<open>h\<close>, is the output of the gemv op called on \<open>h.zeros_like()\<close>,
  on \<open>W\<close> with axes 0 and 1 swapped and axes 2 and 3 swapped, on \<open>go\<close> as the sparse input,
  and on \<open>outputIdx\<close>, \<open>inputIdx\<close> in this order. That call succeeds.
\<close>

theorem gemv_grad_h:
  assumes "SparseBlockGemv_make_node self ov W h inputIdx outputIdx = Inr fwd"
    and "type_of go = type_of (Output fwd)"
  shows "\<exists>gs hgrad.
           SparseBlockGemv_grad self [ov, W, h, inputIdx, outputIdx] [go] = Inr gs \<and>
           length gs = 5 \<and> gs ! 2 = Tensor hgrad \<and>
           call_op (SparseBlockGemv_make_node (SparseBlockGemv (inplace self))
                      (ZerosLike h) (DimShuffle [Axis 1, Axis 0, Axis 3, Axis 2] W)
                      go outputIdx inputIdx) = Inr hgrad \<and>
           hgrad = Output (Apply (SparseBlockGemv (inplace self))
                     [ZerosLike h, DimShuffle [Axis 1, Axis 0, Axis 3, Axis 2] W, go,
                      outputIdx, inputIdx]
                     \<lparr>dtype = dtype (type_of h), broadcastable = replicate 3 False\<rparr>)"
  by (simp add: gemv_grad_value [OF assms] gemv_grad_hgrad_call [OF assms] del: One_nat_def)

theorem gemv_grad_h_witness:
  "(let ov = Variable ''o'' \<lparr>dtype = ''float64'', broadcastable = [False, False, False]\<rparr>;
        W = Variable ''W'' \<lparr>dtype = ''float64'', broadcastable = [False, False, False, False]\<rparr>;
        h = Variable ''h'' \<lparr>dtype = ''float64'', broadcastable = [False, False, False]\<rparr>;
        inputIdx = Variable ''inputIdx'' \<lparr>dtype = ''int64'', broadcastable = [False, False]\<rparr>;
        outputIdx = Variable ''outputIdx'' \<lparr>dtype = ''int32'', broadcastable = [False, False]\<rparr>;
        go = Variable ''go'' \<lparr>dtype = ''float64'', broadcastable = [False, False, False]\<rparr>;
        fwd = Apply (SparseBlockGemv False) [ov, W, h, inputIdx, outputIdx]
                \<lparr>dtype = ''float64'', broadcastable = [False, False, False]\<rparr>
    in SparseBlockGemv_make_node (SparseBlockGemv False) ov W h inputIdx outputIdx = Inr fwd \<and>
       type_of go = type_of (Output fwd) \<and>
       (\<exists>gs. SparseBlockGemv_grad (SparseBlockGemv False)
                [ov, W, h, inputIdx, outputIdx] [go] = Inr gs \<and>
          gs ! 2 = Tensor (Output (Apply (SparseBlockGemv False)
                     [ZerosLike h, DimShuffle [Axis 1, Axis 0, Axis 3, Axis 2] W, go,
                      outputIdx, inputIdx]
                     \<lparr>dtype = ''float64'', broadcastable = [False, False, False]\<rparr>))))"
proof -
  let ?ov = "Variable ''o'' \<lparr>dtype = ''float64'', broadcastable = [False, False, False]\<rparr>"
  let ?W = "Variable ''W'' \<lparr>dtype = ''float64'', broadcastable = [False, False, False, False]\<rparr>"
  let ?h = "Variable ''h'' \<lparr>dtype = ''float64'', broadcastable = [False, False, False]\<rparr>"
  let ?i = "Variable ''inputIdx'' \<lparr>dtype = ''int64'', broadcastable = [False, False]\<rparr>"
  let ?j = "Variable ''outputIdx'' \<lparr>dtype = ''int32'', broadcastable = [False, False]\<rparr>"
  let ?go = "Variable ''go'' \<lparr>dtype = ''float64'', broadcastable = [False, False, False]\<rparr>"
  let ?fwd = "Apply (SparseBlockGemv False) [?ov, ?W, ?h, ?i, ?j]
                \<lparr>dtype = ''float64'', broadcastable = [False, False, False]\<rparr>"
  have a: "SparseBlockGemv_make_node (SparseBlockGemv False) ?ov ?W ?h ?i ?j = Inr ?fwd"
    by (simp add: gemv_make_node_Inr_iff ndim_def discrete_dtypes_def numeral_eq_Suc)
  have b: "type_of ?go = type_of (Output ?fwd)"
    by simp
  from gemv_grad_h [OF a b] a b show ?thesis
    by (auto simp add: Let_def numeral_eq_Suc)
qed

text \<open>
  Claim C4. Under the same hypotheses the first entry of the gradient list, the gradient
  with respect to \<open>o\<close>, is \<open>go\<close> itself, and the second, the gradient with respect to \<open>W\<close>,
  is the output of one call of the outer-product op on \<open>W.zeros_like()\<close>, \<open>h\<close>, \<open>go\<close>,
  \<open>inputIdx\<close>, \<open>outputIdx\<close> (with the default \<open>alpha\<close>).
\<close>

theorem gemv_grad_W_and_o:
  assumes "SparseBlockGemv_make_node self ov W h inputIdx outputIdx = Inr fwd"
    and "type_of go = type_of (Output fwd)"
  shows "\<exists>gs Wgrad.
           SparseBlockGemv_grad self [ov, W, h, inputIdx, outputIdx] [go] = Inr gs \<and>
           length gs = 5 \<and> gs ! 0 = Tensor go \<and> gs ! 1 = Tensor Wgrad \<and>
           call_op (SparseBlockOuter_make_node (SparseBlockOuter (inplace self))
                      (ZerosLike W) h go inputIdx outputIdx None) = Inr Wgrad \<and>
           Wgrad = Output (Apply (SparseBlockOuter (inplace self))
                     [ZerosLike W, h, go, inputIdx, outputIdx,
                      Constant \<lparr>dtype = ''float32'', broadcastable = []\<rparr> 1]
                     \<lparr>dtype = dtype (type_of W), broadcastable = replicate 4 False\<rparr>)"
proof -
  from assms(1) have "ndim W = 4"
    by (simp add: gemv_make_node_Inr_iff)
  then show ?thesis
    by (simp add: gemv_grad_value [OF assms] gemv_grad_Wgrad_call del: One_nat_def)
qed

theorem gemv_grad_W_and_o_witness:
  "(let ov = Variable ''o'' \<lparr>dtype = ''float32'', broadcastable = [False, False, False]\<rparr>;
        W = Variable ''W'' \<lparr>dtype = ''float32'', broadcastable = [False, False, False, False]\<rparr>;
        h = Variable ''h'' \<lparr>dtype = ''float32'', broadcastable = [False, False, False]\<rparr>;
        inputIdx = Variable ''inputIdx'' \<lparr>dtype = ''int64'', broadcastable = [False, False]\<rparr>;
        outputIdx = Variable ''outputIdx'' \<lparr>dtype = ''int64'', broadcastable = [False, False]\<rparr>;
        go = Variable ''go'' \<lparr>dtype = ''float32'', broadcastable = [False, False, False]\<rparr>;
        fwd = Apply (CpuSparseBlockGemv True) [ov, W, h, inputIdx, outputIdx]
                \<lparr>dtype = ''float32'', broadcastable = [False, False, False]\<rparr>
    in SparseBlockGemv_make_node (CpuSparseBlockGemv True) ov W h inputIdx outputIdx = Inr fwd \<and>
       type_of go = type_of (Output fwd) \<and>
       (\<exists>gs. SparseBlockGemv_grad (CpuSparseBlockGemv True)
                [ov, W, h, inputIdx, outputIdx] [go] = Inr gs \<and>
          gs ! 0 = Tensor go \<and>
          gs ! 1 = Tensor (Output (Apply (SparseBlockOuter True)
                     [ZerosLike W, h, go, inputIdx, outputIdx,
                      Constant \<lparr>dtype = ''float32'', broadcastable = []\<rparr> 1]
                     \<lparr>dtype = ''float32'', broadcastable = [False, False, False, False]\<rparr>))))"
proof -
  let ?ov = "Variable ''o'' \<lparr>dtype = ''float32'', broadcastable = [False, False, False]\<rparr>"
  let ?W = "Variable ''W'' \<lparr>dtype = ''float32'', broadcastable = [False, False, False, False]\<rparr>"
  let ?h = "Variable ''h'' \<lparr>dtype = ''float32'', broadcastable = [False, False, False]\<rparr>"
  let ?i = "Variable ''inputIdx'' \<lparr>dtype = ''int64'', broadcastable = [False, False]\<rparr>"
  let ?j = "Variable ''outputIdx'' \<lparr>dtype = ''int64'', broadcastable = [False, False]\<rparr>"
  let ?go = "Variable ''go'' \<lparr>dtype = ''float32'', broadcastable = [False, False, False]\<rparr>"
  let ?fwd = "Apply (CpuSparseBlockGemv True) [?ov, ?W, ?h, ?i, ?j]
                \<lparr>dtype = ''float32'', broadcastable = [False, False, False]\<rparr>"
  have a: "SparseBlockGemv_make_node (CpuSparseBlockGemv True) ?ov ?W ?h ?i ?j = Inr ?fwd"
    by (simp add: gemv_make_node_Inr_iff ndim_def discrete_dtypes_def numeral_eq_Suc)
  have b: "type_of ?go = type_of (Output ?fwd)"
    by simp
  from gemv_grad_W_and_o [OF a b] a b show ?thesis
    by (auto simp add: Let_def numeral_eq_Suc)
qed


subsection \<open>Running the loops\<close>

lemma bindE_Inr [simp]: "bindE (Inr x) f = f x"
  by (simp add: bindE_def)

lemma bindE_Inl [simp]: "bindE (Inl e) f = Inl e"
  by (simp add: bindE_def)

lemma for_loop_append:
  "for_loop (xs @ ys) body s = bindE (for_loop xs body s) (for_loop ys body)"
  by (induction xs arbitrary: s) (auto split: sum.splits)

lemma for_loop_fold:
  assumes "\<And>k a. k < n \<Longrightarrow> body k (mk a) = Inr (mk (f k a))"
  shows "for_loop [0..<n] body (mk a) = Inr (mk (fold f [0..<n] a))"
  using assms
proof (induction n)
  case 0
  then show ?case by simp
next
  case (Suc n)
  then have "for_loop [0..<n] body (mk a) = Inr (mk (fold f [0..<n] a))"
    by simp
  moreover have "body n (mk (fold f [0..<n] a)) = Inr (mk (f n (fold f [0..<n] a)))"
    using Suc.prems by simp
  ultimately show ?case
    by (simp add: for_loop_append)
qed

lemma norm_index_in_range: "0 \<le> i \<Longrightarrow> i < int n \<Longrightarrow> norm_index i n = Inr (nat i)"
  by (simp add: norm_index_def)

subsection \<open>The gemv kernel\<close>

lemma heap3_with_at3_same: "heap3 (with_at3 s r F) r = (heap3 s r)\<lparr>at3 := F\<rparr>"
  by (simp add: with_at3_def)

lemma heap3_with_at3_other: "r' \<noteq> r \<Longrightarrow> heap3 (with_at3 s r F) r' = heap3 s r'"
  by (simp add: with_at3_def)

lemma heap4_with_at3: "heap4 (with_at3 s r F) = heap4 s"
  by (simp add: with_at3_def)

lemma gemv_step_with_at3:
  assumes ok: "gemv_shapes_ok (heap3 s o_ref) (heap4 s W_ref) (heap3 s h_ref) iIdx oIdx"
    and ne: "o_ref \<noteq> h_ref"
    and b: "b < shape3_0 (heap3 s o_ref)" and j: "j < shape3_1 (heap3 s o_ref)"
    and i: "i < shape3_1 (heap3 s h_ref)"
  shows "gemv_step o_ref W_ref h_ref iIdx b j (iat oIdx b j) i (with_at3 s o_ref F) =
           Inr (with_at3 s o_ref
                  (gemv_step_fun (heap3 s o_ref) (heap3 s h_ref) (heap4 s W_ref) iIdx oIdx b j i F))"
proof -
  let ?t = "with_at3 s o_ref F"
  let ?W = "heap4 s W_ref" and ?h = "heap3 s h_ref" and ?o = "heap3 s o_ref"
  have h: "heap3 ?t h_ref = ?h"
    using ne by (simp add: heap3_with_at3_other)
  have ii: "index2_getitem iIdx b i = Inr (iat iIdx b i)"
    using ok b i by (simp add: index2_getitem_def gemv_shapes_ok_def)
  have ri: "0 \<le> iat iIdx b i" "iat iIdx b i < int (shape4_0 ?W)"
    and rj: "0 \<le> iat oIdx b j" "iat oIdx b j < int (shape4_1 ?W)"
    using ok b i j by (simp_all add: gemv_shapes_ok_def)
  have w: "tensor4_getitem (heap4 ?t W_ref) (iat iIdx b i) (iat oIdx b j) =
      Inr \<lparr>mshape_0 = shape4_2 ?W, mshape_1 = shape4_3 ?W,
           mat = at4 ?W (nat (iat iIdx b i)) (nat (iat oIdx b j))\<rparr>"
    using ri rj by (simp add: tensor4_getitem_def heap4_with_at3 norm_index_in_range)
  have tg: "tensor3_getitem (heap3 ?t o_ref) b j = Inr \<lparr>vshape_0 = shape3_2 ?o, vat = F b j\<rparr>"
    using b j by (simp add: tensor3_getitem_def heap3_with_at3_same)
  have hr: "tensor3_getitem (heap3 ?t h_ref) b i = Inr \<lparr>vshape_0 = shape3_2 ?h, vat = at3 ?h b i\<rparr>"
    using ok b i by (simp add: h tensor3_getitem_def gemv_shapes_ok_def)
  have d: "dot \<lparr>vshape_0 = shape3_2 ?h, vat = at3 ?h b i\<rparr>
             \<lparr>mshape_0 = shape4_2 ?W, mshape_1 = shape4_3 ?W,
              mat = at4 ?W (nat (iat iIdx b i)) (nat (iat oIdx b j))\<rparr> =
           Inr \<lparr>vshape_0 = shape3_2 ?o, vat = dot_term ?h ?W iIdx oIdx b j i\<rparr>"
    using ok by (simp add: dot_def gemv_shapes_ok_def dot_term_def fun_eq_iff)
  have ia: "iadd_vector \<lparr>vshape_0 = shape3_2 ?o, vat = F b j\<rparr>
              \<lparr>vshape_0 = shape3_2 ?o, vat = dot_term ?h ?W iIdx oIdx b j i\<rparr> =
            Inr \<lparr>vshape_0 = shape3_2 ?o,
                 vat = (\<lambda>k. F b j k + dot_term ?h ?W iIdx oIdx b j i (bcast (shape3_2 ?o) k))\<rparr>"
    by (simp add: iadd_vector_def)
  have st: "?t\<lparr>heap3 := (heap3 ?t)(o_ref := tensor3_setitem (heap3 ?t o_ref) b j
               \<lparr>vshape_0 = shape3_2 ?o,
                vat = (\<lambda>k. F b j k + dot_term ?h ?W iIdx oIdx b j i (bcast (shape3_2 ?o) k))\<rparr>)\<rparr> =
            with_at3 s o_ref (gemv_step_fun ?o ?h ?W iIdx oIdx b j i F)"
    by (auto simp add: with_at3_def tensor3_setitem_def gemv_step_fun_def bcast_def fun_eq_iff
        intro!: arg_cong [where f = "\<lambda>F. (heap3 s o_ref)\<lparr>at3 := F\<rparr>"])
  show ?thesis
    unfolding gemv_step_def by (simp only: ii bindE_Inr w tg hr d ia st)
qed

lemma with_at3_id: "with_at3 s r (at3 (heap3 s r)) = s"
  by (simp add: with_at3_def)

lemma gemv_fold_i:
  "fold (gemv_step_fun ov h W iIdx oIdx b j) [0..<n] F =
     (\<lambda>b' j' k. if b' = b \<and> j' = j \<and> k < shape3_2 ov
                then F b j k + (\<Sum>i<n. dot_term h W iIdx oIdx b j i k) else F b' j' k)"
proof (induction n)
  case 0
  show ?case by (simp add: fun_eq_iff)
next
  case (Suc n)
  have "fold (gemv_step_fun ov h W iIdx oIdx b j) [0..<Suc n] F =
          gemv_step_fun ov h W iIdx oIdx b j n (fold (gemv_step_fun ov h W iIdx oIdx b j) [0..<n] F)"
    by simp
  also have "\<dots> = (\<lambda>b' j' k. if b' = b \<and> j' = j \<and> k < shape3_2 ov
                then F b j k + (\<Sum>i<Suc n. dot_term h W iIdx oIdx b j i k) else F b' j' k)"
    unfolding Suc by (simp add: gemv_step_fun_def fun_eq_iff add.assoc)
  finally show ?case .
qed

lemma gemv_fold_j:
  "fold (gemv_row_fun ov h W iIdx oIdx b) [0..<n] F =
     (\<lambda>b' j' k. if b' = b \<and> j' < n \<and> k < shape3_2 ov
                then F b' j' k + (\<Sum>i<shape3_1 h. dot_term h W iIdx oIdx b' j' i k)
                else F b' j' k)"
proof (induction n)
  case 0
  show ?case by (simp add: fun_eq_iff)
next
  case (Suc n)
  have "fold (gemv_row_fun ov h W iIdx oIdx b) [0..<Suc n] F =
          gemv_row_fun ov h W iIdx oIdx b n (fold (gemv_row_fun ov h W iIdx oIdx b) [0..<n] F)"
    by simp
  also have "\<dots> = (\<lambda>b' j' k. if b' = b \<and> j' < Suc n \<and> k < shape3_2 ov
                then F b' j' k + (\<Sum>i<shape3_1 h. dot_term h W iIdx oIdx b' j' i k)
                else F b' j' k)"
    unfolding Suc by (auto simp add: gemv_row_fun_def gemv_fold_i fun_eq_iff less_Suc_eq)
  finally show ?case .
qed

lemma gemv_fold_b:
  "fold (gemv_batch_fun ov h W iIdx oIdx) [0..<n] F =
     (\<lambda>b' j' k. if b' < n \<and> j' < shape3_1 ov \<and> k < shape3_2 ov
                then F b' j' k + (\<Sum>i<shape3_1 h. dot_term h W iIdx oIdx b' j' i k)
                else F b' j' k)"
proof (induction n)
  case 0
  show ?case by (simp add: fun_eq_iff)
next
  case (Suc n)
  have "fold (gemv_batch_fun ov h W iIdx oIdx) [0..<Suc n] F =
          gemv_batch_fun ov h W iIdx oIdx n (fold (gemv_batch_fun ov h W iIdx oIdx) [0..<n] F)"
    by simp
  also have "\<dots> = (\<lambda>b' j' k. if b' < Suc n \<and> j' < shape3_1 ov \<and> k < shape3_2 ov
                then F b' j' k + (\<Sum>i<shape3_1 h. dot_term h W iIdx oIdx b' j' i k)
                else F b' j' k)"
    unfolding Suc by (auto simp add: gemv_batch_fun_def gemv_fold_j fun_eq_iff less_Suc_eq)
  finally show ?case .
qed

lemma gemv_loops_with_at3:
  assumes ok: "gemv_shapes_ok (heap3 s o_ref) (heap4 s W_ref) (heap3 s h_ref) iIdx oIdx"
    and ne: "o_ref \<noteq> h_ref"
  shows "gemv_loops o_ref W_ref h_ref iIdx oIdx (with_at3 s o_ref F) =
           Inr (with_at3 s o_ref
                  (fold (gemv_batch_fun (heap3 s o_ref) (heap3 s h_ref) (heap4 s W_ref) iIdx oIdx)
                     [0..<shape3_0 (heap3 s o_ref)] F))"
proof -
  let ?ov = "heap3 s o_ref" and ?h = "heap3 s h_ref" and ?W = "heap4 s W_ref"
  have inner: "for_loop [0..<shape3_1 (heap3 (with_at3 s o_ref a) h_ref)]
                 (gemv_step o_ref W_ref h_ref iIdx b j (iat oIdx b j)) (with_at3 s o_ref a) =
               Inr (with_at3 s o_ref (gemv_row_fun ?ov ?h ?W iIdx oIdx b j a))"
    if "b < shape3_0 ?ov" "j < shape3_1 ?ov" for b j a
    unfolding gemv_row_fun_def heap3_with_at3_other [OF ne [symmetric]]
    by (rule for_loop_fold [where mk = "with_at3 s o_ref"])
      (simp add: gemv_step_with_at3 [OF ok ne that])
  have middle_body: "bindE (index2_getitem oIdx b j) (\<lambda>outputIdx.
           for_loop [0..<shape3_1 (heap3 (with_at3 s o_ref a) h_ref)]
             (gemv_step o_ref W_ref h_ref iIdx b j outputIdx) (with_at3 s o_ref a)) =
         Inr (with_at3 s o_ref (gemv_row_fun ?ov ?h ?W iIdx oIdx b j a))"
    if "b < shape3_0 ?ov" "j < shape3_1 ?ov" for b j a
  proof -
    have "index2_getitem oIdx b j = Inr (iat oIdx b j)"
      using ok that by (simp add: index2_getitem_def gemv_shapes_ok_def)
    then show ?thesis
      by (simp add: inner [OF that])
  qed
  have middle: "for_loop [0..<shape3_1 (heap3 (with_at3 s o_ref a) o_ref)] (\<lambda>j s2.
         bindE (index2_getitem oIdx b j) (\<lambda>outputIdx.
           for_loop [0..<shape3_1 (heap3 s2 h_ref)]
             (gemv_step o_ref W_ref h_ref iIdx b j outputIdx) s2)) (with_at3 s o_ref a) =
         Inr (with_at3 s o_ref (gemv_batch_fun ?ov ?h ?W iIdx oIdx b a))"
    if "b < shape3_0 ?ov" for b a
    unfolding gemv_batch_fun_def heap3_with_at3_same
    by (simp, rule for_loop_fold [where mk = "with_at3 s o_ref"])
      (simp add: middle_body [OF that])
  show ?thesis
    unfolding gemv_loops_def heap3_with_at3_same
    by (simp, rule for_loop_fold [where mk = "with_at3 s o_ref"]) (simp add: middle)
qed

lemma gemv_loops_result:
  assumes "gemv_shapes_ok (heap3 s o_ref) (heap4 s W_ref) (heap3 s h_ref) iIdx oIdx"
    and "o_ref \<noteq> h_ref"
  shows "gemv_loops o_ref W_ref h_ref iIdx oIdx s =
           Inr (s\<lparr>heap3 := (heap3 s)(o_ref :=
                  gemv_spec (heap3 s o_ref) (heap4 s W_ref) (heap3 s h_ref) iIdx oIdx)\<rparr>)"
proof -
  have "gemv_loops o_ref W_ref h_ref iIdx oIdx (with_at3 s o_ref (at3 (heap3 s o_ref))) =
          Inr (with_at3 s o_ref
                 (fold (gemv_batch_fun (heap3 s o_ref) (heap3 s h_ref) (heap4 s W_ref) iIdx oIdx)
                    [0..<shape3_0 (heap3 s o_ref)] (at3 (heap3 s o_ref))))"
    by (rule gemv_loops_with_at3 [OF assms])
  then show ?thesis
    by (simp add: with_at3_id gemv_fold_b) (simp add: with_at3_def gemv_spec_def)
qed

lemma gemv_perform_inplace:
  assumes "gemv_inputs_valid True s o_ref W_ref h_ref iIdx oIdx"
  shows "CpuSparseBlockGemv_perform True s o_ref W_ref h_ref iIdx oIdx =
           Inr (s\<lparr>heap3 := (heap3 s)(o_ref :=
                  gemv_spec (heap3 s o_ref) (heap4 s W_ref) (heap3 s h_ref) iIdx oIdx)\<rparr>, o_ref)"
  using assms
  by (simp add: CpuSparseBlockGemv_perform_def gemv_inputs_valid_def gemv_loops_result)

lemma gemv_perform_copy:
  assumes "gemv_inputs_valid ip s o_ref W_ref h_ref iIdx oIdx"
  shows "CpuSparseBlockGemv_perform False s o_ref W_ref h_ref iIdx oIdx =
           Inr (s\<lparr>next_ref := Suc (next_ref s),
                  heap3 := (heap3 s)(next_ref s :=
                    gemv_spec (heap3 s o_ref) (heap4 s W_ref) (heap3 s h_ref) iIdx oIdx)\<rparr>,
                next_ref s)"
proof -
  let ?s' = "s\<lparr>next_ref := Suc (next_ref s), heap3 := (heap3 s)(next_ref s := heap3 s o_ref)\<rparr>"
  from assms have ne: "next_ref s \<noteq> h_ref" and ok:
    "gemv_shapes_ok (heap3 s o_ref) (heap4 s W_ref) (heap3 s h_ref) iIdx oIdx"
    by (auto simp add: gemv_inputs_valid_def)
  have ok': "gemv_shapes_ok (heap3 ?s' (next_ref s)) (heap4 ?s' W_ref) (heap3 ?s' h_ref) iIdx oIdx"
    using ok ne by simp
  have "gemv_loops (next_ref s) W_ref h_ref iIdx oIdx ?s' =
          Inr (?s'\<lparr>heap3 := (heap3 ?s')(next_ref s :=
                  gemv_spec (heap3 ?s' (next_ref s)) (heap4 ?s' W_ref) (heap3 ?s' h_ref) iIdx oIdx)\<rparr>)"
    by (rule gemv_loops_result [OF ok' ne])
  then show ?thesis
    using ne by (simp add: CpuSparseBlockGemv_perform_def copy3_def)
qed

subsection \<open>The outer-product kernel\<close>

lemma heap4_with_at4_same: "heap4 (with_at4 s r F) r = (heap4 s r)\<lparr>at4 := F\<rparr>"
  by (simp add: with_at4_def)

lemma heap3_with_at4: "heap3 (with_at4 s r F) = heap3 s"
  by (simp add: with_at4_def)

lemma with_at4_id: "with_at4 s r (at4 (heap4 s r)) = s"
  by (simp add: with_at4_def)

lemma outer_step_with_at4:
  assumes ok: "outer_shapes_ok (heap4 s o_ref) (heap3 s x_ref) (heap3 s y_ref) xIdx yIdx"
    and b: "b < shape3_0 (heap3 s x_ref)" and i: "i < shape3_1 (heap3 s x_ref)"
    and j: "j < shape3_1 (heap3 s y_ref)"
  shows "outer_step o_ref x_ref y_ref xIdx yIdx b i j (with_at4 s o_ref F) =
           Inr (with_at4 s o_ref
                  (outer_step_fun (heap4 s o_ref) (heap3 s x_ref) (heap3 s y_ref) xIdx yIdx b i j F))"
proof -
  let ?t = "with_at4 s o_ref F"
  let ?x = "heap3 s x_ref" and ?y = "heap3 s y_ref" and ?o = "heap4 s o_ref"
  let ?p = "nat (iat xIdx b i)" and ?q = "nat (iat yIdx b j)"
  have gp: "index2_getitem xIdx b i = Inr (iat xIdx b i)"
    using ok b i by (simp add: index2_getitem_def outer_shapes_ok_def)
  have gq: "index2_getitem yIdx b j = Inr (iat yIdx b j)"
    using ok b j by (simp add: index2_getitem_def outer_shapes_ok_def)
  have np: "norm_index (iat xIdx b i) (shape4_0 ?o) = Inr ?p"
    using ok b i by (simp add: norm_index_in_range outer_shapes_ok_def)
  have nq: "norm_index (iat yIdx b j) (shape4_1 ?o) = Inr ?q"
    using ok b j by (simp add: norm_index_in_range outer_shapes_ok_def)
  have tg: "tensor4_getitem (heap4 ?t o_ref) (iat xIdx b i) (iat yIdx b j) =
      Inr \<lparr>mshape_0 = shape4_2 ?o, mshape_1 = shape4_3 ?o, mat = F ?p ?q\<rparr>"
    by (simp add: tensor4_getitem_def heap4_with_at4_same np nq)
  have xr: "tensor3_getitem (heap3 ?t x_ref) b i = Inr \<lparr>vshape_0 = shape4_2 ?o, vat = at3 ?x b i\<rparr>"
    using ok b i by (simp add: heap3_with_at4 tensor3_getitem_def outer_shapes_ok_def)
  have yr: "tensor3_getitem (heap3 ?t y_ref) b j = Inr \<lparr>vshape_0 = shape4_3 ?o, vat = at3 ?y b j\<rparr>"
    using ok b j by (simp add: heap3_with_at4 tensor3_getitem_def outer_shapes_ok_def)
  let ?new = "\<lparr>mshape_0 = shape4_2 ?o, mshape_1 = shape4_3 ?o,
               mat = (\<lambda>r c. F ?p ?q r c +
                  at3 ?x b i (bcast (shape4_2 ?o) r) * at3 ?y b j (bcast (shape4_3 ?o) c))\<rparr>"
  have ia: "iadd_matrix \<lparr>mshape_0 = shape4_2 ?o, mshape_1 = shape4_3 ?o, mat = F ?p ?q\<rparr>
              (outer \<lparr>vshape_0 = shape4_2 ?o, vat = at3 ?x b i\<rparr>
                     \<lparr>vshape_0 = shape4_3 ?o, vat = at3 ?y b j\<rparr>) = Inr ?new"
    by (simp add: iadd_matrix_def outer_def)
  have si: "tensor4_setitem (heap4 ?t o_ref) (iat xIdx b i) (iat yIdx b j) ?new =
      Inr ((heap4 s o_ref)\<lparr>at4 :=
             outer_step_fun ?o ?x ?y xIdx yIdx b i j F\<rparr>)"
    by (auto simp add: tensor4_setitem_def heap4_with_at4_same np nq outer_step_fun_def
        outer_term_def bcast_def fun_eq_iff
        intro!: arg_cong [where f = "\<lambda>F. (heap4 s o_ref)\<lparr>at4 := F\<rparr>"])
  have st: "?t\<lparr>heap4 := (heap4 ?t)(o_ref := (heap4 s o_ref)\<lparr>at4 :=
             outer_step_fun ?o ?x ?y xIdx yIdx b i j F\<rparr>)\<rparr> =
            with_at4 s o_ref (outer_step_fun ?o ?x ?y xIdx yIdx b i j F)"
    by (simp add: with_at4_def)
  show ?thesis
    unfolding outer_step_def by (simp only: gp gq bindE_Inr tg xr yr ia si st)
qed

lemma outer_loops_with_at4:
  assumes ok: "outer_shapes_ok (heap4 s o_ref) (heap3 s x_ref) (heap3 s y_ref) xIdx yIdx"
  shows "outer_loops o_ref x_ref y_ref xIdx yIdx (with_at4 s o_ref F) =
           Inr (with_at4 s o_ref
                  (fold (outer_batch_fun (heap4 s o_ref) (heap3 s x_ref) (heap3 s y_ref) xIdx yIdx)
                     [0..<shape3_0 (heap3 s x_ref)] F))"
proof -
  let ?ov = "heap4 s o_ref" and ?x = "heap3 s x_ref" and ?y = "heap3 s y_ref"
  from ok have wx: "ishape_1 xIdx = shape3_1 ?x" and wy: "ishape_1 yIdx = shape3_1 ?y"
    by (simp_all add: outer_shapes_ok_def)
  have inner: "for_loop [0..<shape3_1 ?y]
                 (outer_step o_ref x_ref y_ref xIdx yIdx b i) (with_at4 s o_ref a) =
               Inr (with_at4 s o_ref (outer_window_fun ?ov ?x ?y xIdx yIdx b i a))"
    if "b < shape3_0 ?x" "i < shape3_1 ?x" for b i a
    unfolding outer_window_fun_def
    by (rule for_loop_fold [where mk = "with_at4 s o_ref"])
      (simp add: outer_step_with_at4 [OF ok that])
  have middle: "for_loop [0..<shape3_1 ?x] (\<lambda>i s2.
         for_loop [0..<shape3_1 ?y] (outer_step o_ref x_ref y_ref xIdx yIdx b i) s2)
           (with_at4 s o_ref a) =
         Inr (with_at4 s o_ref (outer_batch_fun ?ov ?x ?y xIdx yIdx b a))"
    if "b < shape3_0 ?x" for b a
    unfolding outer_batch_fun_def
    by (rule for_loop_fold [where mk = "with_at4 s o_ref"]) (simp add: inner [OF that])
  show ?thesis
    unfolding outer_loops_def heap3_with_at4 wx wy
    by (rule for_loop_fold [where mk = "with_at4 s o_ref"]) (simp add: middle)
qed

lemma outer_fold_j:
  "fold (outer_step_fun ov x y xIdx yIdx b i) [0..<n] F =
     (\<lambda>p q r c. F p q r c + (\<Sum>j<n. outer_term ov x y xIdx yIdx b i j p q r c))"
proof (induction n)
  case 0
  show ?case by (simp add: fun_eq_iff)
next
  case (Suc n)
  have "fold (outer_step_fun ov x y xIdx yIdx b i) [0..<Suc n] F =
          outer_step_fun ov x y xIdx yIdx b i n
            (fold (outer_step_fun ov x y xIdx yIdx b i) [0..<n] F)"
    by simp
  also have "\<dots> = (\<lambda>p q r c. F p q r c +
                      (\<Sum>j<Suc n. outer_term ov x y xIdx yIdx b i j p q r c))"
    unfolding Suc by (simp add: outer_step_fun_def fun_eq_iff add.assoc)
  finally show ?case .
qed

lemma outer_fold_i:
  "fold (outer_window_fun ov x y xIdx yIdx b) [0..<n] F =
     (\<lambda>p q r c. F p q r c +
        (\<Sum>i<n. \<Sum>j<shape3_1 y. outer_term ov x y xIdx yIdx b i j p q r c))"
proof (induction n)
  case 0
  show ?case by (simp add: fun_eq_iff)
next
  case (Suc n)
  have "fold (outer_window_fun ov x y xIdx yIdx b) [0..<Suc n] F =
          outer_window_fun ov x y xIdx yIdx b n
            (fold (outer_window_fun ov x y xIdx yIdx b) [0..<n] F)"
    by simp
  also have "\<dots> = (\<lambda>p q r c. F p q r c +
        (\<Sum>i<Suc n. \<Sum>j<shape3_1 y. outer_term ov x y xIdx yIdx b i j p q r c))"
    unfolding Suc by (simp add: outer_window_fun_def outer_fold_j fun_eq_iff add.assoc)
  finally show ?case .
qed

lemma outer_fold_b:
  "fold (outer_batch_fun ov x y xIdx yIdx) [0..<n] F =
     (\<lambda>p q r c. F p q r c +
        (\<Sum>b<n. \<Sum>i<shape3_1 x. \<Sum>j<shape3_1 y. outer_term ov x y xIdx yIdx b i j p q r c))"
proof (induction n)
  case 0
  show ?case by (simp add: fun_eq_iff)
next
  case (Suc n)
  have "fold (outer_batch_fun ov x y xIdx yIdx) [0..<Suc n] F =
          outer_batch_fun ov x y xIdx yIdx n
            (fold (outer_batch_fun ov x y xIdx yIdx) [0..<n] F)"
    by simp
  also have "\<dots> = (\<lambda>p q r c. F p q r c +
        (\<Sum>b<Suc n. \<Sum>i<shape3_1 x. \<Sum>j<shape3_1 y.
           outer_term ov x y xIdx yIdx b i j p q r c))"
    unfolding Suc by (simp add: outer_batch_fun_def outer_fold_i fun_eq_iff add.assoc)
  finally show ?case .
qed

lemma outer_loops_result:
  assumes "outer_shapes_ok (heap4 s o_ref) (heap3 s x_ref) (heap3 s y_ref) xIdx yIdx"
  shows "outer_loops o_ref x_ref y_ref xIdx yIdx s =
           Inr (s\<lparr>heap4 := (heap4 s)(o_ref :=
                  outer_spec (heap4 s o_ref) (heap3 s x_ref) (heap3 s y_ref) xIdx yIdx)\<rparr>)"
proof -
  have "outer_loops o_ref x_ref y_ref xIdx yIdx (with_at4 s o_ref (at4 (heap4 s o_ref))) =
          Inr (with_at4 s o_ref
                 (fold (outer_batch_fun (heap4 s o_ref) (heap3 s x_ref) (heap3 s y_ref) xIdx yIdx)
                    [0..<shape3_0 (heap3 s x_ref)] (at4 (heap4 s o_ref))))"
    by (rule outer_loops_with_at4 [OF assms])
  then show ?thesis
    by (simp add: with_at4_id outer_fold_b) (simp add: with_at4_def outer_spec_def)
qed

lemma outer_perform_inplace:
  assumes "outer_inputs_valid s o_ref x_ref y_ref xIdx yIdx"
  shows "CpuSparseBlockOuter_perform True s o_ref x_ref y_ref xIdx yIdx alpha =
           Inr (s\<lparr>heap4 := (heap4 s)(o_ref :=
                  outer_spec (heap4 s o_ref) (heap3 s x_ref) (heap3 s y_ref) xIdx yIdx)\<rparr>, o_ref)"
  using assms
  by (simp add: CpuSparseBlockOuter_perform_def outer_inputs_valid_def outer_loops_result)

lemma outer_perform_copy:
  assumes "outer_inputs_valid s o_ref x_ref y_ref xIdx yIdx"
  shows "CpuSparseBlockOuter_perform False s o_ref x_ref y_ref xIdx yIdx alpha =
           Inr (s\<lparr>next_ref := Suc (next_ref s),
                  heap4 := (heap4 s)(next_ref s :=
                    outer_spec (heap4 s o_ref) (heap3 s x_ref) (heap3 s y_ref) xIdx yIdx)\<rparr>,
                next_ref s)"
proof -
  let ?s' = "s\<lparr>next_ref := Suc (next_ref s), heap4 := (heap4 s)(next_ref s := heap4 s o_ref)\<rparr>"
  from assms have ok:
    "outer_shapes_ok (heap4 s o_ref) (heap3 s x_ref) (heap3 s y_ref) xIdx yIdx"
    by (simp add: outer_inputs_valid_def)
  have ok': "outer_shapes_ok (heap4 ?s' (next_ref s)) (heap3 ?s' x_ref) (heap3 ?s' y_ref) xIdx yIdx"
    using ok by simp
  have "outer_loops (next_ref s) x_ref y_ref xIdx yIdx ?s' =
          Inr (?s'\<lparr>heap4 := (heap4 ?s')(next_ref s :=
                  outer_spec (heap4 ?s' (next_ref s)) (heap3 ?s' x_ref) (heap3 ?s' y_ref) xIdx yIdx)\<rparr>)"
    by (rule outer_loops_result [OF ok'])
  then show ?thesis
    by (simp add: CpuSparseBlockOuter_perform_def copy4_def)
qed



subsection \<open>The example inputs are valid\<close>

lemmas example_defs = example_store_def example_o_def example_h_def example_W_def
  example_iIdx_def example_oIdx_def example_bias_def example_acc_def example_x_def
  example_y_def example_xyIdx_def example_gathered_def

lemma example_gemv_valid: "gemv_inputs_valid ip example_store 0 1 2 example_iIdx example_oIdx"
  by (simp add: gemv_inputs_valid_def gemv_shapes_ok_def example_defs)

lemma example_outer_valid: "outer_inputs_valid example_store 3 4 5 example_xyIdx example_xyIdx"
  by (simp add: outer_inputs_valid_def outer_shapes_ok_def example_defs)

lemma example_bias_valid:
  "gemv_inputs_valid ip example_store 6 1 2 example_iIdx example_oIdx"
  by (simp add: gemv_inputs_valid_def gemv_shapes_ok_def example_defs)

subsection \<open>The result of the gemv kernel\<close>

lemma gemv_perform_value:
  assumes "gemv_inputs_valid ip s o_ref W_ref h_ref iIdx oIdx"
  shows "\<exists>s' r.
           CpuSparseBlockGemv_perform ip s o_ref W_ref h_ref iIdx oIdx = Inr (s', r) \<and>
           heap3 s' r = gemv_spec (heap3 s o_ref) (heap4 s W_ref) (heap3 s h_ref) iIdx oIdx"
proof (cases ip)
  case True
  with assms have "gemv_inputs_valid True s o_ref W_ref h_ref iIdx oIdx"
    by simp
  from gemv_perform_inplace [OF this] True show ?thesis
    by simp
next
  case False
  from gemv_perform_copy [OF assms] False show ?thesis
    by simp
qed

text \<open>
  Claim C1. For every valid call of the CPU gemv kernel, in-place or not, \<open>perform\<close>
  returns an array of the shape of \<open>o\<close> whose element at batch index \<open>b\<close>, output-window
  position \<open>j\<close> and component \<open>k\<close> is \<open>o[b, j, k]\<close> plus the sum, over all input-window
  positions \<open>i\<close>, of component \<open>k\<close> of the product of the row vector \<open>h[b, i, :]\<close> with the
  block \<open>W[inputIdx[b, i], outputIdx[b, j], :, :]\<close>; \<open>o\<close>, \<open>W\<close> and \<open>h\<close> are the arrays
  before the call.
\<close>

theorem gemv_perform_result:
  assumes "gemv_inputs_valid ip s o_ref W_ref h_ref iIdx oIdx"
  shows "\<exists>s' r.
           CpuSparseBlockGemv_perform ip s o_ref W_ref h_ref iIdx oIdx = Inr (s', r) \<and>
           shape3_0 (heap3 s' r) = shape3_0 (heap3 s o_ref) \<and>
           shape3_1 (heap3 s' r) = shape3_1 (heap3 s o_ref) \<and>
           shape3_2 (heap3 s' r) = shape3_2 (heap3 s o_ref) \<and>
           (\<forall>b<shape3_0 (heap3 s o_ref). \<forall>j<shape3_1 (heap3 s o_ref).
              \<forall>k<shape3_2 (heap3 s o_ref).
                at3 (heap3 s' r) b j k =
                  at3 (heap3 s o_ref) b j k +
                  (\<Sum>i<shape3_1 (heap3 s h_ref). \<Sum>m<shape3_2 (heap3 s h_ref).
                     at3 (heap3 s h_ref) b i m *
                     at4 (heap4 s W_ref) (nat (iat iIdx b i)) (nat (iat oIdx b j)) m k))"
proof -
  from gemv_perform_value [OF assms] obtain s' r where
    "CpuSparseBlockGemv_perform ip s o_ref W_ref h_ref iIdx oIdx = Inr (s', r)"
    "heap3 s' r = gemv_spec (heap3 s o_ref) (heap4 s W_ref) (heap3 s h_ref) iIdx oIdx"
    by blast
  then show ?thesis
    by (simp add: gemv_spec_def dot_term_def)
qed

theorem gemv_perform_result_witness:
  "gemv_inputs_valid True example_store 0 1 2 example_iIdx example_oIdx \<and>
   (\<exists>s' r. CpuSparseBlockGemv_perform True example_store 0 1 2 example_iIdx example_oIdx =
              Inr (s', r) \<and>
            at3 (heap3 s' r) 0 0 0 = 14 \<and> at3 (heap3 s' r) 0 0 1 = 27)"
proof -
  have v: "gemv_inputs_valid True example_store 0 1 2 example_iIdx example_oIdx"
    by (rule example_gemv_valid)
  from gemv_perform_result [OF v] obtain s' r where
    p: "CpuSparseBlockGemv_perform True example_store 0 1 2 example_iIdx example_oIdx = Inr (s', r)"
    and e: "\<forall>b<shape3_0 (heap3 example_store 0). \<forall>j<shape3_1 (heap3 example_store 0).
              \<forall>k<shape3_2 (heap3 example_store 0).
                at3 (heap3 s' r) b j k =
                  at3 (heap3 example_store 0) b j k +
                  (\<Sum>i<shape3_1 (heap3 example_store 2). \<Sum>m<shape3_2 (heap3 example_store 2).
                     at3 (heap3 example_store 2) b i m *
                     at4 (heap4 example_store 1) (nat (iat example_iIdx b i))
                       (nat (iat example_oIdx b j)) m k)"
    by blast
  from e have "at3 (heap3 s' r) 0 0 0 = 14" "at3 (heap3 s' r) 0 0 1 = 27"
    by (simp_all add: example_defs lessThan_Suc numeral_2_eq_2)
  with v p show ?thesis
    by blast
qed

subsection \<open>The result of the outer-product kernel\<close>

lemma outer_perform_value:
  assumes "outer_inputs_valid s o_ref x_ref y_ref xIdx yIdx"
  shows "\<exists>s' res.
           CpuSparseBlockOuter_perform ip s o_ref x_ref y_ref xIdx yIdx alpha = Inr (s', res) \<and>
           heap4 s' res = outer_spec (heap4 s o_ref) (heap3 s x_ref) (heap3 s y_ref) xIdx yIdx"
proof (cases ip)
  case True
  from outer_perform_inplace [OF assms, of alpha] True show ?thesis
    by simp
next
  case False
  from outer_perform_copy [OF assms, of alpha] False show ?thesis
    by simp
qed

lemma sum3_product:
  fixes g :: "nat \<Rightarrow> nat \<Rightarrow> nat \<Rightarrow> 'a::comm_monoid_add"
  shows "(\<Sum>b<Bn. \<Sum>i<Xn. \<Sum>j<Yn. g b i j) =
         (\<Sum>(b, i, j)\<in>{..<Bn} \<times> {..<Xn} \<times> {..<Yn}. g b i j)"
  by (simp add: sum.cartesian_product)

lemma sum3_split_two:
  fixes g :: "nat \<Rightarrow> nat \<Rightarrow> nat \<Rightarrow> 'a::comm_monoid_add"
  assumes "b1 < Bn" "i1 < Xn" "j1 < Yn" "b2 < Bn" "i2 < Xn" "j2 < Yn"
    and ne: "(b1, i1, j1) \<noteq> (b2, i2, j2)"
  shows "(\<Sum>b<Bn. \<Sum>i<Xn. \<Sum>j<Yn. g b i j) =
           g b1 i1 j1 + g b2 i2 j2 +
           (\<Sum>b<Bn. \<Sum>i<Xn. \<Sum>j<Yn.
              if (b, i, j) = (b1, i1, j1) \<or> (b, i, j) = (b2, i2, j2) then 0 else g b i j)"
proof -
  let ?T = "{..<Bn} \<times> {..<Xn} \<times> {..<Yn}"
  let ?G = "\<lambda>(b, i, j). g b i j"
  let ?t1 = "(b1, i1, j1)" and ?t2 = "(b2, i2, j2)"
  let ?R = "\<lambda>(b, i, j). if (b, i, j) = ?t1 \<or> (b, i, j) = ?t2 then 0 else g b i j"
  have fin: "finite ?T" by simp
  have in1: "?t1 \<in> ?T" and in2: "?t2 \<in> ?T - {?t1}"
    using assms by auto
  have "sum ?G ?T = ?G ?t1 + sum ?G (?T - {?t1})"
    using fin in1 by (rule sum.remove)
  also have "sum ?G (?T - {?t1}) = ?G ?t2 + sum ?G (?T - {?t1} - {?t2})"
    using in2 by (intro sum.remove) simp_all
  also have "sum ?G (?T - {?t1} - {?t2}) = sum ?R ?T"
  proof (rule sum.mono_neutral_cong_left)
    show "finite ?T" by simp
    show "?T - {?t1} - {?t2} \<subseteq> ?T" by blast
    show "\<forall>t\<in>?T - (?T - {?t1} - {?t2}). ?R t = 0" by auto
    show "?G t = ?R t" if "t \<in> ?T - {?t1} - {?t2}" for t
      using that by (cases t) auto
  qed
  finally have "sum ?G ?T = g b1 i1 j1 + g b2 i2 j2 + sum ?R ?T"
    by (simp add: add.assoc)
  then show ?thesis
    unfolding sum3_product by simp
qed

text \<open>
  Claim C5. For every valid call of the CPU outer-product kernel, in-place or not, and
  two distinct triples (batch, x-window, y-window) whose indices name the same block, the
  element \<open>(r, c)\<close> of that block in the result is the element of \<open>o\<close> plus the product
  contributed by the first triple plus the product contributed by the second plus the
  contributions of all other triples sent to the block: both are in the sum, neither is
  overwritten.
\<close>

theorem outer_collisions_accumulate:
  assumes valid: "outer_inputs_valid s o_ref x_ref y_ref xIdx yIdx"
    and t1: "b1 < shape3_0 (heap3 s x_ref)" "i1 < shape3_1 (heap3 s x_ref)"
      "j1 < shape3_1 (heap3 s y_ref)"
    and t2: "b2 < shape3_0 (heap3 s x_ref)" "i2 < shape3_1 (heap3 s x_ref)"
      "j2 < shape3_1 (heap3 s y_ref)"
    and distinct: "(b1, i1, j1) \<noteq> (b2, i2, j2)"
    and same: "iat xIdx b2 i2 = iat xIdx b1 i1" "iat yIdx b2 j2 = iat yIdx b1 j1"
    and rc: "r < shape4_2 (heap4 s o_ref)" "c < shape4_3 (heap4 s o_ref)"
  shows "\<exists>s' res.
           CpuSparseBlockOuter_perform ip s o_ref x_ref y_ref xIdx yIdx alpha = Inr (s', res) \<and>
           at4 (heap4 s' res) (nat (iat xIdx b1 i1)) (nat (iat yIdx b1 j1)) r c =
             at4 (heap4 s o_ref) (nat (iat xIdx b1 i1)) (nat (iat yIdx b1 j1)) r c +
             at3 (heap3 s x_ref) b1 i1 r * at3 (heap3 s y_ref) b1 j1 c +
             at3 (heap3 s x_ref) b2 i2 r * at3 (heap3 s y_ref) b2 j2 c +
             (\<Sum>b<shape3_0 (heap3 s x_ref). \<Sum>i<shape3_1 (heap3 s x_ref).
                \<Sum>j<shape3_1 (heap3 s y_ref).
                  if (b, i, j) = (b1, i1, j1) \<or> (b, i, j) = (b2, i2, j2) then 0
                  else if nat (iat xIdx b i) = nat (iat xIdx b1 i1) \<and>
                          nat (iat yIdx b j) = nat (iat yIdx b1 j1)
                       then at3 (heap3 s x_ref) b i r * at3 (heap3 s y_ref) b j c
                       else 0)"
proof -
  let ?ov = "heap4 s o_ref" and ?x = "heap3 s x_ref" and ?y = "heap3 s y_ref"
  let ?p = "nat (iat xIdx b1 i1)" and ?q = "nat (iat yIdx b1 j1)"
  let ?g = "\<lambda>b i j. outer_term ?ov ?x ?y xIdx yIdx b i j ?p ?q r c"
  from outer_perform_value [OF valid, of ip alpha] obtain s' res where
    run: "CpuSparseBlockOuter_perform ip s o_ref x_ref y_ref xIdx yIdx alpha = Inr (s', res)"
    and res: "heap4 s' res = outer_spec ?ov ?x ?y xIdx yIdx"
    by blast
  have split: "(\<Sum>b<shape3_0 ?x. \<Sum>i<shape3_1 ?x. \<Sum>j<shape3_1 ?y. ?g b i j) =
      ?g b1 i1 j1 + ?g b2 i2 j2 +
      (\<Sum>b<shape3_0 ?x. \<Sum>i<shape3_1 ?x. \<Sum>j<shape3_1 ?y.
         if (b, i, j) = (b1, i1, j1) \<or> (b, i, j) = (b2, i2, j2) then 0 else ?g b i j)"
    by (rule sum3_split_two [OF t1 t2 distinct])
  have g1: "?g b1 i1 j1 = at3 ?x b1 i1 r * at3 ?y b1 j1 c"
    using rc by (simp add: outer_term_def)
  have g2: "?g b2 i2 j2 = at3 ?x b2 i2 r * at3 ?y b2 j2 c"
    using rc same by (simp add: outer_term_def)
  have rest: "(if (b, i, j) = (b1, i1, j1) \<or> (b, i, j) = (b2, i2, j2) then 0 else ?g b i j) =
      (if (b, i, j) = (b1, i1, j1) \<or> (b, i, j) = (b2, i2, j2) then 0
       else if nat (iat xIdx b i) = ?p \<and> nat (iat yIdx b j) = ?q
            then at3 ?x b i r * at3 ?y b j c else 0)" for b i j
    using rc by (auto simp add: outer_term_def)
  have "at4 (heap4 s' res) ?p ?q r c =
      at4 ?ov ?p ?q r c + (\<Sum>b<shape3_0 ?x. \<Sum>i<shape3_1 ?x. \<Sum>j<shape3_1 ?y. ?g b i j)"
    by (simp add: res outer_spec_def)
  also note split
  finally show ?thesis
    using run unfolding g1 g2 rest by (simp add: add.assoc)
qed

theorem outer_collisions_accumulate_witness:
  "outer_inputs_valid example_store 3 4 5 example_xyIdx example_xyIdx \<and>
   (0::nat, 0::nat, 0::nat) \<noteq> (1, 0, 0) \<and>
   iat example_xyIdx 1 0 = iat example_xyIdx 0 0 \<and>
   (\<exists>s' res. CpuSparseBlockOuter_perform False example_store 3 4 5
                 example_xyIdx example_xyIdx 1 = Inr (s', res) \<and>
              at4 (heap4 s' res) 0 0 0 0 = 1 + 2 * 3 + 5 * 7)"
proof -
  have v: "outer_inputs_valid example_store 3 4 5 example_xyIdx example_xyIdx"
    by (rule example_outer_valid)
  have d: "(0::nat, 0::nat, 0::nat) \<noteq> (1, 0, 0)"
    by simp
  have same: "iat example_xyIdx 1 0 = iat example_xyIdx 0 0"
    by (simp add: example_defs)
  from outer_collisions_accumulate [OF v _ _ _ _ _ _ d same same, of 0 0 False 1]
  obtain s' res where
    "CpuSparseBlockOuter_perform False example_store 3 4 5 example_xyIdx example_xyIdx 1 =
       Inr (s', res)"
    "at4 (heap4 s' res) 0 0 0 0 = 1 + 2 * 3 + 5 * 7"
    by (auto simp add: example_defs lessThan_Suc numeral_2_eq_2)
  with v d same show ?thesis
    by blast
qed

text \<open>
  Claim C2 says that every outer product is scaled by \<open>alpha\<close> before it is added, as the
  docstring of \<open>SparseBlockOuter\<close> does. \<open>CpuSparseBlockOuter.perform\<close> unpacks \<open>alpha\<close>
  and never uses it. On the example with \<open>alpha = 2\<close> the result element is
  \<open>1 + 2 * 3 + 5 * 7 = 42\<close>; the documented value is \<open>1 + 2 * (2 * 3) + 2 * (5 * 7) = 83\<close>.
\<close>

theorem outer_perform_ignores_alpha:
  "map_sum id (\<lambda>(s', r). at4 (heap4 s' r) 0 0 0 0)
     (CpuSparseBlockOuter_perform False example_store 3 4 5 example_xyIdx example_xyIdx 2) =
     Inr 42 \<and>
   at4 example_acc 0 0 0 0 +
     2 * (at3 example_x 0 0 0 * at3 example_y 0 0 0) +
     2 * (at3 example_x 1 0 0 * at3 example_y 1 0 0) = 83"
  by (simp add: CpuSparseBlockOuter_perform_def copy4_def outer_loops_def outer_step_def
      example_defs index2_getitem_def tensor4_getitem_def tensor4_setitem_def
      tensor3_getitem_def norm_index_def outer_def iadd_matrix_def bcast_def
      upt_rec [of 0] numeral_2_eq_2)

subsection \<open>In-place and copy mode\<close>

text \<open>
  Claim C8. For every valid input the copy variant and the in-place variant of the gemv
  kernel both return, and the two output arrays are equal. The in-place variant returns
  the reference of \<open>o\<close> and changes the store at that reference only; the copy variant
  returns a new reference and changes the store there only, so \<open>o\<close> keeps its value. The
  same holds for the outer-product kernel.
\<close>

theorem inplace_and_copy_agree:
  "(gemv_inputs_valid True s o_ref W_ref h_ref iIdx oIdx \<longrightarrow>
      (\<exists>s1 r1 s2.
         CpuSparseBlockGemv_perform False s o_ref W_ref h_ref iIdx oIdx = Inr (s1, r1) \<and>
         CpuSparseBlockGemv_perform True s o_ref W_ref h_ref iIdx oIdx = Inr (s2, o_ref) \<and>
         heap3 s1 r1 = heap3 s2 o_ref \<and>
         r1 \<noteq> o_ref \<and> heap3 s1 o_ref = heap3 s o_ref \<and>
         (\<forall>r. r \<noteq> r1 \<longrightarrow> heap3 s1 r = heap3 s r) \<and> heap4 s1 = heap4 s \<and>
         (\<forall>r. r \<noteq> o_ref \<longrightarrow> heap3 s2 r = heap3 s r) \<and> heap4 s2 = heap4 s)) \<and>
   (outer_inputs_valid t a_ref x_ref y_ref xIdx yIdx \<longrightarrow>
      (\<exists>t1 r1 t2.
         CpuSparseBlockOuter_perform False t a_ref x_ref y_ref xIdx yIdx alpha = Inr (t1, r1) \<and>
         CpuSparseBlockOuter_perform True t a_ref x_ref y_ref xIdx yIdx alpha = Inr (t2, a_ref) \<and>
         heap4 t1 r1 = heap4 t2 a_ref \<and>
         r1 \<noteq> a_ref \<and> heap4 t1 a_ref = heap4 t a_ref \<and>
         (\<forall>r. r \<noteq> r1 \<longrightarrow> heap4 t1 r = heap4 t r) \<and> heap3 t1 = heap3 t \<and>
         (\<forall>r. r \<noteq> a_ref \<longrightarrow> heap4 t2 r = heap4 t r) \<and> heap3 t2 = heap3 t))"
proof (intro conjI impI)
  assume v: "gemv_inputs_valid True s o_ref W_ref h_ref iIdx oIdx"
  then have "next_ref s \<noteq> o_ref"
    by (auto simp add: gemv_inputs_valid_def)
  with gemv_perform_copy [OF v] gemv_perform_inplace [OF v]
  show "\<exists>s1 r1 s2.
         CpuSparseBlockGemv_perform False s o_ref W_ref h_ref iIdx oIdx = Inr (s1, r1) \<and>
         CpuSparseBlockGemv_perform True s o_ref W_ref h_ref iIdx oIdx = Inr (s2, o_ref) \<and>
         heap3 s1 r1 = heap3 s2 o_ref \<and>
         r1 \<noteq> o_ref \<and> heap3 s1 o_ref = heap3 s o_ref \<and>
         (\<forall>r. r \<noteq> r1 \<longrightarrow> heap3 s1 r = heap3 s r) \<and> heap4 s1 = heap4 s \<and>
         (\<forall>r. r \<noteq> o_ref \<longrightarrow> heap3 s2 r = heap3 s r) \<and> heap4 s2 = heap4 s"
    by simp
next
  assume v: "outer_inputs_valid t a_ref x_ref y_ref xIdx yIdx"
  then have "next_ref t \<noteq> a_ref"
    by (auto simp add: outer_inputs_valid_def)
  with outer_perform_copy [OF v, of alpha] outer_perform_inplace [OF v, of alpha]
  show "\<exists>t1 r1 t2.
         CpuSparseBlockOuter_perform False t a_ref x_ref y_ref xIdx yIdx alpha = Inr (t1, r1) \<and>
         CpuSparseBlockOuter_perform True t a_ref x_ref y_ref xIdx yIdx alpha = Inr (t2, a_ref) \<and>
         heap4 t1 r1 = heap4 t2 a_ref \<and>
         r1 \<noteq> a_ref \<and> heap4 t1 a_ref = heap4 t a_ref \<and>
         (\<forall>r. r \<noteq> r1 \<longrightarrow> heap4 t1 r = heap4 t r) \<and> heap3 t1 = heap3 t \<and>
         (\<forall>r. r \<noteq> a_ref \<longrightarrow> heap4 t2 r = heap4 t r) \<and> heap3 t2 = heap3 t"
    by simp
qed

theorem inplace_and_copy_agree_witness:
  "gemv_inputs_valid True example_store 0 1 2 example_iIdx example_oIdx \<and>
   (\<exists>s1 r1 s2.
      CpuSparseBlockGemv_perform False example_store 0 1 2 example_iIdx example_oIdx =
        Inr (s1, r1) \<and>
      CpuSparseBlockGemv_perform True example_store 0 1 2 example_iIdx example_oIdx =
        Inr (s2, 0) \<and>
      heap3 s1 r1 = heap3 s2 0 \<and> heap3 s1 0 = example_o) \<and>
   outer_inputs_valid example_store 3 4 5 example_xyIdx example_xyIdx \<and>
   (\<exists>t1 r1 t2.
      CpuSparseBlockOuter_perform False example_store 3 4 5 example_xyIdx example_xyIdx 1 =
        Inr (t1, r1) \<and>
      CpuSparseBlockOuter_perform True example_store 3 4 5 example_xyIdx example_xyIdx 1 =
        Inr (t2, 3) \<and>
      heap4 t1 r1 = heap4 t2 3 \<and> heap4 t1 3 = example_acc)"
proof -
  have g: "gemv_inputs_valid True example_store 0 1 2 example_iIdx example_oIdx"
    by (rule example_gemv_valid)
  have u: "outer_inputs_valid example_store 3 4 5 example_xyIdx example_xyIdx"
    by (rule example_outer_valid)
  have h3: "heap3 example_store 0 = example_o" and h4: "heap4 example_store 3 = example_acc"
    by (simp_all add: example_store_def)
  from inplace_and_copy_agree
    [of example_store 0 1 2 example_iIdx example_oIdx example_store 3 4 5
        example_xyIdx example_xyIdx 1] g u h3 h4
  show ?thesis
    by (simp only: simp_thms) metis
qed

text \<open>
  The condition on in-place calls in \<open>gemv_inputs_valid\<close> is needed. When \<open>o\<close> and \<open>h\<close>
  are one array, every in-place update of \<open>o\<close> changes the \<open>h\<close> that later iterations
  read: the copy variant returns the rows 3 and 3, the in-place variant 3 and 8.
\<close>

lemma aliased_accumulator_differs:
  "map_sum id (\<lambda>(s', r). (at3 (heap3 s' r) 0 0 0, at3 (heap3 s' r) 0 1 0))
     (CpuSparseBlockGemv_perform False aliased_store 0 1 0 aliased_idx aliased_idx) =
     Inr (3, 3) \<and>
   map_sum id (\<lambda>(s', r). (at3 (heap3 s' r) 0 0 0, at3 (heap3 s' r) 0 1 0))
     (CpuSparseBlockGemv_perform True aliased_store 0 1 0 aliased_idx aliased_idx) =
     Inr (3, 8)"
  by (simp add: CpuSparseBlockGemv_perform_def copy3_def gemv_loops_def gemv_step_def
      aliased_store_def aliased_idx_def index2_getitem_def tensor4_getitem_def
      tensor3_getitem_def norm_index_def dot_def iadd_vector_def tensor3_setitem_def bcast_def
      upt_rec [of 0] numeral_2_eq_2)

subsection \<open>The entry point with a bias\<close>

lemma sparse_block_dot_call:
  assumes "(ndim h = 3 \<and> ndim inputIdx = 2 \<and> ndim outputIdx = 2 \<and>
            (h', inputIdx', outputIdx') = (h, inputIdx, outputIdx)) \<or>
           (ndim h = 2 \<and> ndim inputIdx = 1 \<and> ndim outputIdx = 1 \<and>
            (h', inputIdx', outputIdx') =
              (DimShuffle [DimX, Axis 0, Axis 1] h, DimShuffle [DimX, Axis 0] inputIdx,
               DimShuffle [DimX, Axis 0] outputIdx))"
  shows "sparse_block_dot W h inputIdx b outputIdx ip =
           call_op (SparseBlockGemv_make_node (SparseBlockGemv ip)
                      (Take b outputIdx' 0) W h' inputIdx' outputIdx') \<and>
         ndim h' = 3 \<and> ndim inputIdx' = 2 \<and> ndim outputIdx' = 2 \<and>
         dtype (type_of inputIdx') = dtype (type_of inputIdx) \<and>
         dtype (type_of outputIdx') = dtype (type_of outputIdx)"
  using assms by (auto simp add: sparse_block_dot_def ndim_DimShuffle)

text \<open>
  Claim C7. For every valid input of \<open>sparse_block_dot\<close>, batched (\<open>h\<close> of rank 3) or not
  (\<open>h\<close> of rank 2, which gets a leading axis of length 1), the result is the output of the
  gemv op applied to \<open>b.take(outputIdx, axis=0)\<close>, \<open>W\<close>, \<open>h\<close>, \<open>inputIdx\<close>, \<open>outputIdx\<close>. When
  the CPU kernel runs on such inputs, the accumulator holding the bias rows that
  \<open>outputIdx\<close> selects, the result at batch index \<open>n\<close>, output-window position \<open>j\<close> and component \<open>k\<close> is
  \<open>bias[outputIdx[n, j], k]\<close>, once, plus the sum of the products over the input window,
  however many input blocks there are.
\<close>

theorem sparse_block_dot_bias_once:
  assumes form: "(ndim h = 3 \<and> ndim inputIdx = 2 \<and> ndim outputIdx = 2 \<and>
            (h', inputIdx', outputIdx') = (h, inputIdx, outputIdx)) \<or>
           (ndim h = 2 \<and> ndim inputIdx = 1 \<and> ndim outputIdx = 1 \<and>
            (h', inputIdx', outputIdx') =
              (DimShuffle [DimX, Axis 0, Axis 1] h, DimShuffle [DimX, Axis 0] inputIdx,
               DimShuffle [DimX, Axis 0] outputIdx))"
    and ranks: "ndim W = 4" "ndim b = 2"
    and dtypes: "dtype (type_of inputIdx) \<in> set discrete_dtypes"
      "dtype (type_of outputIdx) \<in> set discrete_dtypes"
    and valid: "gemv_inputs_valid ip s o_ref W_ref h_ref iIdx oIdx"
    and gathered: "mshape_1 bias = shape3_2 (heap3 s o_ref)"
      "\<forall>n<ishape_0 oIdx. \<forall>j<ishape_1 oIdx. \<forall>k<mshape_1 bias.
         at3 (heap3 s o_ref) n j k = mat bias (nat (iat oIdx n j)) k"
  shows "sparse_block_dot W h inputIdx b outputIdx ip =
           Inr (Output (Apply (SparseBlockGemv ip)
                  [Take b outputIdx' 0, W, h', inputIdx', outputIdx']
                  \<lparr>dtype = dtype (type_of b), broadcastable = replicate 3 False\<rparr>)) \<and>
         (\<exists>s' r.
            CpuSparseBlockGemv_perform ip s o_ref W_ref h_ref iIdx oIdx = Inr (s', r) \<and>
            (\<forall>n<ishape_0 oIdx. \<forall>j<ishape_1 oIdx. \<forall>k<mshape_1 bias.
               at3 (heap3 s' r) n j k =
                 mat bias (nat (iat oIdx n j)) k +
                 (\<Sum>i<shape3_1 (heap3 s h_ref). \<Sum>m<shape3_2 (heap3 s h_ref).
                    at3 (heap3 s h_ref) n i m *
                    at4 (heap4 s W_ref) (nat (iat iIdx n i)) (nat (iat oIdx n j)) m k)))"
proof
  from sparse_block_dot_call [OF form]
  have call: "sparse_block_dot W h inputIdx b outputIdx ip =
           call_op (SparseBlockGemv_make_node (SparseBlockGemv ip)
                      (Take b outputIdx' 0) W h' inputIdx' outputIdx')"
    and r: "ndim h' = 3" "ndim inputIdx' = 2" "ndim outputIdx' = 2"
    and d: "dtype (type_of inputIdx') = dtype (type_of inputIdx)"
      "dtype (type_of outputIdx') = dtype (type_of outputIdx)"
    by simp_all
  have "ndim (Take b outputIdx' 0) = 3"
    using ranks r by (simp add: ndim_def)
  then have "SparseBlockGemv_make_node (SparseBlockGemv ip) (Take b outputIdx' 0) W h'
               inputIdx' outputIdx' =
             Inr (Apply (SparseBlockGemv ip) [Take b outputIdx' 0, W, h', inputIdx', outputIdx']
                    \<lparr>dtype = dtype (type_of b), broadcastable = replicate 3 False\<rparr>)"
    using ranks r d dtypes by (simp add: gemv_make_node_Inr_iff)
  then show "sparse_block_dot W h inputIdx b outputIdx ip =
           Inr (Output (Apply (SparseBlockGemv ip)
                  [Take b outputIdx' 0, W, h', inputIdx', outputIdx']
                  \<lparr>dtype = dtype (type_of b), broadcastable = replicate 3 False\<rparr>))"
    by (simp add: call call_op_def)
next
  let ?res = "gemv_spec (heap3 s o_ref) (heap4 s W_ref) (heap3 s h_ref) iIdx oIdx"
  from gemv_perform_value [OF valid] obtain s' r where
    run: "CpuSparseBlockGemv_perform ip s o_ref W_ref h_ref iIdx oIdx = Inr (s', r)"
    and res: "heap3 s' r = ?res"
    by blast
  have "at3 ?res n j k =
          mat bias (nat (iat oIdx n j)) k +
          (\<Sum>i<shape3_1 (heap3 s h_ref). \<Sum>m<shape3_2 (heap3 s h_ref).
             at3 (heap3 s h_ref) n i m *
             at4 (heap4 s W_ref) (nat (iat iIdx n i)) (nat (iat oIdx n j)) m k)"
    if "n < ishape_0 oIdx" "j < ishape_1 oIdx" "k < mshape_1 bias" for n j k
    using that valid gathered
    by (simp add: gemv_spec_def dot_term_def gemv_inputs_valid_def gemv_shapes_ok_def)
  with run res show "\<exists>s' r.
            CpuSparseBlockGemv_perform ip s o_ref W_ref h_ref iIdx oIdx = Inr (s', r) \<and>
            (\<forall>n<ishape_0 oIdx. \<forall>j<ishape_1 oIdx. \<forall>k<mshape_1 bias.
               at3 (heap3 s' r) n j k =
                 mat bias (nat (iat oIdx n j)) k +
                 (\<Sum>i<shape3_1 (heap3 s h_ref). \<Sum>m<shape3_2 (heap3 s h_ref).
                    at3 (heap3 s h_ref) n i m *
                    at4 (heap4 s W_ref) (nat (iat iIdx n i)) (nat (iat oIdx n j)) m k))"
    by simp
qed

theorem sparse_block_dot_bias_once_witness:
  "(let W = Variable ''W'' \<lparr>dtype = ''float64'', broadcastable = [False, False, False, False]\<rparr>;
        h = Variable ''h'' \<lparr>dtype = ''float64'', broadcastable = [False, False, False]\<rparr>;
        inputIdx = Variable ''inputIdx'' \<lparr>dtype = ''int64'', broadcastable = [False, False]\<rparr>;
        b = Variable ''b'' \<lparr>dtype = ''float64'', broadcastable = [False, False]\<rparr>;
        outputIdx = Variable ''outputIdx'' \<lparr>dtype = ''int64'', broadcastable = [False, False]\<rparr>
    in ndim h = 3 \<and> ndim inputIdx = 2 \<and> ndim outputIdx = 2 \<and> ndim W = 4 \<and> ndim b = 2 \<and>
       dtype (type_of inputIdx) \<in> set discrete_dtypes \<and>
       dtype (type_of outputIdx) \<in> set discrete_dtypes \<and>
       gemv_inputs_valid False example_store 6 1 2 example_iIdx example_oIdx \<and>
       mshape_1 example_bias = shape3_2 (heap3 example_store 6) \<and>
       (\<forall>n<ishape_0 example_oIdx. \<forall>j<ishape_1 example_oIdx. \<forall>k<mshape_1 example_bias.
          at3 (heap3 example_store 6) n j k =
            mat example_bias (nat (iat example_oIdx n j)) k) \<and>
       sparse_block_dot W h inputIdx b outputIdx False =
         Inr (Output (Apply (SparseBlockGemv False) [Take b outputIdx 0, W, h, inputIdx, outputIdx]
                \<lparr>dtype = ''float64'', broadcastable = [False, False, False]\<rparr>)) \<and>
       (\<exists>s' r. CpuSparseBlockGemv_perform False example_store 6 1 2 example_iIdx example_oIdx =
                  Inr (s', r) \<and>
                at3 (heap3 s' r) 0 0 0 = 104 \<and> at3 (heap3 s' r) 0 0 1 = 207))"
proof -
  let ?W = "Variable ''W'' \<lparr>dtype = ''float64'', broadcastable = [False, False, False, False]\<rparr>"
  let ?h = "Variable ''h'' \<lparr>dtype = ''float64'', broadcastable = [False, False, False]\<rparr>"
  let ?i = "Variable ''inputIdx'' \<lparr>dtype = ''int64'', broadcastable = [False, False]\<rparr>"
  let ?b = "Variable ''b'' \<lparr>dtype = ''float64'', broadcastable = [False, False]\<rparr>"
  let ?j = "Variable ''outputIdx'' \<lparr>dtype = ''int64'', broadcastable = [False, False]\<rparr>"
  have r: "ndim ?h = 3" "ndim ?i = 2" "ndim ?j = 2" "ndim ?W = 4" "ndim ?b = 2"
    by (simp_all add: ndim_def)
  have d: "dtype (type_of ?i) \<in> set discrete_dtypes" "dtype (type_of ?j) \<in> set discrete_dtypes"
    by (simp_all add: discrete_dtypes_def)
  have form: "(ndim ?h = 3 \<and> ndim ?i = 2 \<and> ndim ?j = 2 \<and> (?h, ?i, ?j) = (?h, ?i, ?j)) \<or>
           (ndim ?h = 2 \<and> ndim ?i = 1 \<and> ndim ?j = 1 \<and>
            (?h, ?i, ?j) =
              (DimShuffle [DimX, Axis 0, Axis 1] ?h, DimShuffle [DimX, Axis 0] ?i,
               DimShuffle [DimX, Axis 0] ?j))"
    using r by simp
  have v: "gemv_inputs_valid False example_store 6 1 2 example_iIdx example_oIdx"
    by (rule example_bias_valid)
  have g: "mshape_1 example_bias = shape3_2 (heap3 example_store 6)"
    "\<forall>n<ishape_0 example_oIdx. \<forall>j<ishape_1 example_oIdx. \<forall>k<mshape_1 example_bias.
       at3 (heap3 example_store 6) n j k = mat example_bias (nat (iat example_oIdx n j)) k"
    by (simp_all add: example_defs)
  from sparse_block_dot_bias_once [OF form r(4,5) d v g]
  obtain s' q where
    sym: "sparse_block_dot ?W ?h ?i ?b ?j False =
            Inr (Output (Apply (SparseBlockGemv False) [Take ?b ?j 0, ?W, ?h, ?i, ?j]
                   \<lparr>dtype = dtype (type_of ?b), broadcastable = replicate 3 False\<rparr>))"
    and run: "CpuSparseBlockGemv_perform False example_store 6 1 2 example_iIdx example_oIdx =
                Inr (s', q)"
    and e: "\<forall>n<ishape_0 example_oIdx. \<forall>j<ishape_1 example_oIdx. \<forall>k<mshape_1 example_bias.
               at3 (heap3 s' q) n j k =
                 mat example_bias (nat (iat example_oIdx n j)) k +
                 (\<Sum>i<shape3_1 (heap3 example_store 2). \<Sum>m<shape3_2 (heap3 example_store 2).
                    at3 (heap3 example_store 2) n i m *
                    at4 (heap4 example_store 1) (nat (iat example_iIdx n i))
                      (nat (iat example_oIdx n j)) m k)"
    by blast
  from e have vals: "at3 (heap3 s' q) 0 0 0 = 104" "at3 (heap3 s' q) 0 0 1 = 207"
    by (simp_all add: example_defs lessThan_Suc numeral_2_eq_2)
  have sym': "sparse_block_dot ?W ?h ?i ?b ?j False =
         Inr (Output (Apply (SparseBlockGemv False) [Take ?b ?j 0, ?W, ?h, ?i, ?j]
                \<lparr>dtype = ''float64'', broadcastable = [False, False, False]\<rparr>))"
    using sym by (simp add: numeral_eq_Suc)
  have "\<exists>s' r. CpuSparseBlockGemv_perform False example_store 6 1 2 example_iIdx example_oIdx =
                  Inr (s', r) \<and>
                at3 (heap3 s' r) 0 0 0 = 104 \<and> at3 (heap3 s' r) 0 0 1 = 207"
    using run vals by blast
  with r d v g sym' show ?thesis
    unfolding Let_def by (intro conjI)
qed

end
